theory Spec2Isabelle
  imports Complex_Main "HOL-Library.Multiset" "HOL-Library.Product_Lexorder"
begin

section \<open>Data model\<close>

text \<open>
  The persisted state of \<^verbatim>\<open>database.py\<close> is an SQLite file with the tables
  \<^verbatim>\<open>teams\<close>, \<^verbatim>\<open>matches\<close> and \<^verbatim>\<open>system_settings\<close>.  A table is a list of rows in
  rowid order; \<^verbatim>\<open>cursor.fetchone()\<close> after a \<^verbatim>\<open>SELECT\<close> without \<^verbatim>\<open>ORDER BY\<close> is the
  first row of the table that satisfies the \<^verbatim>\<open>WHERE\<close> clause.

  Dates are stored as \<^verbatim>\<open>'YYYY-MM-DD'\<close> text, which SQLite compares bytewise; on such
  text that is the order of the calendar days, so a date is the number of its day.
  A \<^verbatim>\<open>datetime\<close> (and an SQLite \<^verbatim>\<open>CURRENT_TIMESTAMP\<close>) is a number of seconds in UTC.
  The \<^verbatim>\<open>REAL\<close> rating column and Python's floats are idealised as real numbers;
  the section on double arithmetic below has the rating update with the rounding of
  IEEE doubles.

  SQL leaves the order of the rows of one date open.  \<^verbatim>\<open>_init_db\<close> creates the index
  \<^verbatim>\<open>idx_matches_lookup ON matches(date, home_team_id, away_team_id)\<close> with a new table
  \<^verbatim>\<open>matches\<close> only (lines 99--128), not when it migrates an old one.  SQLite answers
  \<^verbatim>\<open>ORDER BY date\<close> from that index when it is there, so the rows of one date come by
  home team, away team and rowid, and in the order of the table (its sorter is
  stable) when it is not.  \<open>lookup_index\<close> tells whether the index is there.
\<close>

type_synonym date = int
type_synonym datetime = int

definition date_of :: "datetime \<Rightarrow> date" where
  "date_of t = t div 86400"

definition midnight :: "date \<Rightarrow> datetime" where
  "midnight d = d * 86400"

definition timedelta_days :: "int \<Rightarrow> int" where
  "timedelta_days n = n * 86400"

record team =
  team_id :: nat
  api_team_id :: "int option"
  name :: string
  current_elo_rating :: real
  updated_at :: datetime

record match_row =
  match_id :: nat
  api_match_id :: "int option"
  home_team_id :: nat
  away_team_id :: nat
  date :: date
  home_goals :: int
  away_goals :: int
  result :: int

record database =
  teams :: "team list"
  matches :: "match_row list"
  last_fetched_date :: "date option"
  lookup_index :: bool

text \<open>The rows in the order of \<^verbatim>\<open>idx_matches_lookup\<close>, and what
  \<^verbatim>\<open>ORDER BY date ASC\<close> and \<^verbatim>\<open>ORDER BY date DESC\<close> return.\<close>

definition index_order :: "match_row list \<Rightarrow> match_row list" where
  "index_order rows =
     sort_key (\<lambda>m. (date m, home_team_id m, away_team_id m, match_id m)) rows"

definition order_by_date_asc :: "database \<Rightarrow> match_row list \<Rightarrow> match_row list" where
  "order_by_date_asc db rows =
     (if lookup_index db then index_order rows else sort_key date rows)"

definition order_by_date_desc :: "database \<Rightarrow> match_row list \<Rightarrow> match_row list" where
  "order_by_date_desc db rows =
     (if lookup_index db then rev (index_order rows) else sort_key (\<lambda>m. - date m) rows)"

datatype py_error = TypeError | ValueError | FileNotFoundError | OSError

section \<open>Rating engine: \<^verbatim>\<open>update_elo_ratings\<close>\<close>

definition K_FACTOR :: real where
  "K_FACTOR = 30"

definition HOME_ADVANTAGE :: real where
  "HOME_ADVANTAGE = 70"

text \<open>
  Lines 263--280 of \<^verbatim>\<open>database.py\<close> and lines 59--76 of \<^verbatim>\<open>fix_elo.py\<close> are the same
  text; they are one function here.  The \<^verbatim>\<open>else\<close> branch takes every result other
  than \<open>-1\<close> and \<open>0\<close> as an away win.
\<close>

definition home_expected :: "real \<Rightarrow> real \<Rightarrow> real" where
  "home_expected home_elo away_elo =
     1 / (1 + 10 powr ((away_elo - (home_elo + HOME_ADVANTAGE)) / 400))"

definition away_expected :: "real \<Rightarrow> real \<Rightarrow> real" where
  "away_expected home_elo away_elo = 1 - home_expected home_elo away_elo"

definition home_actual :: "int \<Rightarrow> real" where
  "home_actual r = (if r = -1 then 1 else if r = 0 then 0.5 else 0)"

definition away_actual :: "int \<Rightarrow> real" where
  "away_actual r = (if r = -1 then 0 else if r = 0 then 0.5 else 1)"

definition new_home_elo :: "real \<Rightarrow> real \<Rightarrow> int \<Rightarrow> real" where
  "new_home_elo home_elo away_elo r =
     home_elo + K_FACTOR * (home_actual r - home_expected home_elo away_elo)"

definition new_away_elo :: "real \<Rightarrow> real \<Rightarrow> int \<Rightarrow> real" where
  "new_away_elo home_elo away_elo r =
     away_elo + K_FACTOR * (away_actual r - away_expected home_elo away_elo)"

text \<open>\<^verbatim>\<open>SELECT ... FROM matches WHERE match_id = ?\<close> and
  \<^verbatim>\<open>SELECT current_elo_rating FROM teams WHERE team_id = ?\<close>, each with \<^verbatim>\<open>fetchone()\<close>.\<close>

definition match_by_id :: "database \<Rightarrow> nat \<Rightarrow> match_row option" where
  "match_by_id db mid = find (\<lambda>m. match_id m = mid) (matches db)"

definition team_by_id :: "team list \<Rightarrow> nat \<Rightarrow> team option" where
  "team_by_id ts tid = find (\<lambda>t. team_id t = tid) ts"

text \<open>\<^verbatim>\<open>UPDATE teams SET current_elo_rating = ?, updated_at = CURRENT_TIMESTAMP
  WHERE team_id = ?\<close>.\<close>

definition set_elo :: "team list \<Rightarrow> datetime \<Rightarrow> nat \<Rightarrow> real \<Rightarrow> team list" where
  "set_elo ts now tid r =
     map (\<lambda>t. if team_id t = tid then t\<lparr>current_elo_rating := r, updated_at := now\<rparr> else t) ts"

text \<open>
  The part of both \<^verbatim>\<open>update_elo_ratings\<close> after the match row has been fetched.
  \<^verbatim>\<open>cursor.fetchone()[0]\<close> on a team that is not in the table subscripts \<^verbatim>\<open>None\<close>: a
  \<^verbatim>\<open>TypeError\<close>, raised before anything is written.  Both ratings are read before
  either is written.
\<close>

definition apply_match :: "database \<Rightarrow> datetime \<Rightarrow> match_row \<Rightarrow> py_error + database" where
  "apply_match db now m =
     (case team_by_id (teams db) (home_team_id m) of
        None \<Rightarrow> Inl TypeError
      | Some ht \<Rightarrow>
         (case team_by_id (teams db) (away_team_id m) of
            None \<Rightarrow> Inl TypeError
          | Some awt \<Rightarrow>
             (let home_elo = current_elo_rating ht;
                  away_elo = current_elo_rating awt;
                  ts1 = set_elo (teams db) now (home_team_id m)
                          (new_home_elo home_elo away_elo (result m));
                  ts2 = set_elo ts1 now (away_team_id m)
                          (new_away_elo home_elo away_elo (result m))
              in Inr (db\<lparr>teams := ts2\<rparr>))))"

text \<open>\<^verbatim>\<open>Database.update_elo_ratings\<close> (\<^verbatim>\<open>database.py\<close>, line 236): an unknown match id
  raises \<^verbatim>\<open>ValueError\<close>.\<close>

definition update_elo_ratings :: "database \<Rightarrow> datetime \<Rightarrow> nat \<Rightarrow> py_error + database" where
  "update_elo_ratings db now mid =
     (case match_by_id db mid of
        None \<Rightarrow> Inl ValueError
      | Some m \<Rightarrow> apply_match db now m)"

text \<open>\<^verbatim>\<open>EloFixer.update_elo_ratings\<close> (\<^verbatim>\<open>fix_elo.py\<close>, line 34): an unknown match id is
  logged and the call returns without a change.\<close>

definition fixer_update_elo_ratings :: "database \<Rightarrow> datetime \<Rightarrow> nat \<Rightarrow> py_error + database" where
  "fixer_update_elo_ratings db now mid =
     (case match_by_id db mid of
        None \<Rightarrow> Inr db
      | Some m \<Rightarrow> apply_match db now m)"

text \<open>The rating a competitor has in the table.\<close>

definition rating_of :: "database \<Rightarrow> nat \<Rightarrow> real option" where
  "rating_of db tid = map_option current_elo_rating (team_by_id (teams db) tid)"

section \<open>The rating update in double arithmetic\<close>

text \<open>
  Python's \<^verbatim>\<open>float\<close> is the IEEE double: every operation returns the double nearest
  to the exact result, a tie going to the one whose last bit is 0.  \<open>fl\<close> is that
  rounding, for results in the range of the normal doubles (no overflow, no
  subnormal), which is where the ratings are.
\<close>

definition rne :: "real \<Rightarrow> int" where
  "rne y =
     (let f = \<lfloor>y\<rfloor>; r = y - of_int f
      in if r < 1 / 2 then f else if 1 / 2 < r then f + 1
         else if even f then f else f + 1)"

definition fl :: "real \<Rightarrow> real" where
  "fl x =
     (if x = 0 then 0
      else (let u = 2 powr (of_int \<lfloor>log 2 \<bar>x\<bar>\<rfloor> - 52)
            in of_int (rne (x / u)) * u))"

text \<open>\<^verbatim>\<open>10 ** y\<close> is the \<^verbatim>\<open>pow\<close> of the C library, which is exactly 1 at \<open>y = 0\<close>;
  elsewhere it is taken to round correctly.\<close>

definition pow10 :: "real \<Rightarrow> real" where
  "pow10 y = fl (10 powr y)"

text \<open>Lines 264--280 of \<^verbatim>\<open>database.py\<close> (59--76 of \<^verbatim>\<open>fix_elo.py\<close>), operation by
  operation.\<close>

definition home_expected_f :: "real \<Rightarrow> real \<Rightarrow> real" where
  "home_expected_f home_elo away_elo =
     fl (1 / fl (1 + pow10 (fl (fl (away_elo - fl (home_elo + 70)) / 400))))"

definition away_expected_f :: "real \<Rightarrow> real \<Rightarrow> real" where
  "away_expected_f home_elo away_elo = fl (1 - home_expected_f home_elo away_elo)"

definition new_home_elo_f :: "real \<Rightarrow> real \<Rightarrow> int \<Rightarrow> real" where
  "new_home_elo_f home_elo away_elo r =
     fl (home_elo + fl (30 * fl (home_actual r - home_expected_f home_elo away_elo)))"

definition new_away_elo_f :: "real \<Rightarrow> real \<Rightarrow> int \<Rightarrow> real" where
  "new_away_elo_f home_elo away_elo r =
     fl (away_elo + fl (30 * fl (away_actual r - away_expected_f home_elo away_elo)))"

section \<open>Feature computer: \<^verbatim>\<open>get_match_features\<close> and \<^verbatim>\<open>get_match_features2\<close>\<close>

record features =
  Away_Elo :: real
  Home_Elo :: real
  H2H_Draws_Last_5 :: nat
  Draw_Tendency_Home :: real
  Draw_Tendency_Away :: real
  Avg_Home_GD_Last_5 :: real
  Avg_Away_GD_Last_5 :: real
  Elo_Difference :: real

text \<open>\<^verbatim>\<open>SELECT team_id FROM teams WHERE api_team_id = ?\<close> with \<^verbatim>\<open>fetchone()\<close>.\<close>

definition team_by_api :: "team list \<Rightarrow> int \<Rightarrow> team option" where
  "team_by_api ts api = find (\<lambda>t. api_team_id t = Some api) ts"

text \<open>\<^verbatim>\<open>ROW_NUMBER() OVER (ORDER BY date DESC) as rn ... WHERE rn <= 5\<close>.\<close>

definition last_5 :: "database \<Rightarrow> match_row list \<Rightarrow> match_row list" where
  "last_5 db rows = take 5 (order_by_date_desc db rows)"

text \<open>\<^verbatim>\<open>AVG(...)\<close> and \<^verbatim>\<open>SUM(...) / NULLIF(COUNT(*), 0)\<close> are \<^verbatim>\<open>NULL\<close> over no rows; the
  Python replaces \<^verbatim>\<open>None\<close> by \<open>0\<close>.\<close>

definition sql_avg :: "real list \<Rightarrow> real option" where
  "sql_avg vs = (if vs = [] then None else Some (sum_list vs / real (length vs)))"

definition or_0 :: "real option \<Rightarrow> real" where
  "or_0 v = (case v of None \<Rightarrow> 0 | Some x \<Rightarrow> x)"

definition draws :: "match_row list \<Rightarrow> nat" where
  "draws rows = length (filter (\<lambda>m. result m = 0) rows)"

definition draw_tendency :: "match_row list \<Rightarrow> real" where
  "draw_tendency rows = or_0 (sql_avg (map (\<lambda>m. if result m = 0 then 1 else 0) rows))"

definition avg_home_gd :: "match_row list \<Rightarrow> real" where
  "avg_home_gd rows = or_0 (sql_avg (map (\<lambda>m. real_of_int (home_goals m - away_goals m)) rows))"

definition avg_away_gd :: "match_row list \<Rightarrow> real" where
  "avg_away_gd rows = or_0 (sql_avg (map (\<lambda>m. real_of_int (away_goals m - home_goals m)) rows))"

text \<open>The \<^verbatim>\<open>WHERE\<close> clauses of \<^verbatim>\<open>get_match_features\<close> (no cutoff).\<close>

definition h2h_rows :: "match_row list \<Rightarrow> nat \<Rightarrow> nat \<Rightarrow> match_row list" where
  "h2h_rows ms h a =
     filter (\<lambda>m. (home_team_id m = h \<and> away_team_id m = a) \<or>
                 (home_team_id m = a \<and> away_team_id m = h)) ms"

definition home_rows :: "match_row list \<Rightarrow> nat \<Rightarrow> match_row list" where
  "home_rows ms h = filter (\<lambda>m. home_team_id m = h) ms"

definition away_rows :: "match_row list \<Rightarrow> nat \<Rightarrow> match_row list" where
  "away_rows ms a = filter (\<lambda>m. away_team_id m = a) ms"

text \<open>
  \<^verbatim>\<open>Database.get_match_features\<close> (\<^verbatim>\<open>database.py\<close>, line 389).  The body is inside
  \<^verbatim>\<open>try ... except Exception: return None\<close>, so a \<^verbatim>\<open>fetchone()[0]\<close> on no row also
  ends in \<^verbatim>\<open>None\<close>.
\<close>

definition get_match_features :: "database \<Rightarrow> int \<Rightarrow> int \<Rightarrow> features option" where
  "get_match_features db home_team_api_id away_team_api_id =
     (case team_by_api (teams db) home_team_api_id of
        None \<Rightarrow> None
      | Some hr \<Rightarrow>
         (case team_by_api (teams db) away_team_api_id of
            None \<Rightarrow> None
          | Some ar \<Rightarrow>
             (case team_by_id (teams db) (team_id hr) of
                None \<Rightarrow> None
              | Some ht \<Rightarrow>
                 (case team_by_id (teams db) (team_id ar) of
                    None \<Rightarrow> None
                  | Some awt \<Rightarrow>
                     (let h = team_id hr; a = team_id ar;
                          home_elo = current_elo_rating ht;
                          away_elo = current_elo_rating awt
                      in Some \<lparr>Away_Elo = away_elo, Home_Elo = home_elo,
                           H2H_Draws_Last_5 = draws (last_5 db (h2h_rows (matches db) h a)),
                           Draw_Tendency_Home = draw_tendency (last_5 db (home_rows (matches db) h)),
                           Draw_Tendency_Away = draw_tendency (last_5 db (away_rows (matches db) a)),
                           Avg_Home_GD_Last_5 = avg_home_gd (last_5 db (home_rows (matches db) h)),
                           Avg_Away_GD_Last_5 = avg_away_gd (last_5 db (away_rows (matches db) a)),
                           Elo_Difference = home_elo - away_elo\<rparr>)))))"

text \<open>
  \<^verbatim>\<open>get_match_features2\<close> (line 693) takes \<^verbatim>\<open>match_date\<close>; \<^verbatim>\<open>if match_date:\<close> is false for
  \<^verbatim>\<open>None\<close> and for the empty string, which are \<open>None\<close> here.

  Lines 714--723 read a rating by
  \<^verbatim>\<open>cursor.fetchone()[0] if cursor.fetchone() else 1500.0\<close>: the condition is evaluated
  first and takes the first row of the result; when there was one, the other
  \<^verbatim>\<open>fetchone()\<close> takes the row after it and subscripts what it got, which is \<^verbatim>\<open>None\<close>
  when the result had one row only.  With a cutoff the query has
  \<^verbatim>\<open>AND updated_at < ?\<close>: a \<^verbatim>\<open>'YYYY-MM-DD HH:MM:SS'\<close> text is below a \<^verbatim>\<open>'YYYY-MM-DD'\<close> text
  when its day is an earlier one.
\<close>

definition elo_rows :: "team list \<Rightarrow> nat \<Rightarrow> date option \<Rightarrow> real list" where
  "elo_rows ts tid match_date =
     map current_elo_rating
       (filter (\<lambda>t. team_id t = tid \<and>
                    (case match_date of None \<Rightarrow> True | Some d \<Rightarrow> date_of (updated_at t) < d)) ts)"

definition elo_or_default :: "real list \<Rightarrow> py_error + real" where
  "elo_or_default rows =
     (case rows of
        [] \<Rightarrow> Inr 1500
      | r # rest \<Rightarrow> (case rest of [] \<Rightarrow> Inl TypeError | r2 # rest2 \<Rightarrow> Inr r2))"

text \<open>
  The \<^verbatim>\<open>WHERE\<close> clauses of \<^verbatim>\<open>get_match_features2\<close>.  Each query text has
  \<^verbatim>\<open>' AND date < ?'\<close> appended when there is a cutoff.  For the head-to-head query the
  text becomes
  \<^verbatim>\<open>WHERE (home_team_id = ? AND away_team_id = ?) OR (home_team_id = ? AND away_team_id = ?) AND date < ?\<close>
  and \<^verbatim>\<open>AND\<close> binds tighter than \<^verbatim>\<open>OR\<close>.
\<close>

definition before :: "date option \<Rightarrow> match_row \<Rightarrow> bool" where
  "before match_date m = (case match_date of None \<Rightarrow> True | Some d \<Rightarrow> date m < d)"

definition h2h_rows2 :: "match_row list \<Rightarrow> nat \<Rightarrow> nat \<Rightarrow> date option \<Rightarrow> match_row list" where
  "h2h_rows2 ms h a match_date =
     filter (\<lambda>m. (home_team_id m = h \<and> away_team_id m = a) \<or>
                 ((home_team_id m = a \<and> away_team_id m = h) \<and> before match_date m)) ms"

definition home_rows2 :: "match_row list \<Rightarrow> nat \<Rightarrow> date option \<Rightarrow> match_row list" where
  "home_rows2 ms h match_date = filter (\<lambda>m. home_team_id m = h \<and> before match_date m) ms"

definition away_rows2 :: "match_row list \<Rightarrow> nat \<Rightarrow> date option \<Rightarrow> match_row list" where
  "away_rows2 ms a match_date = filter (\<lambda>m. away_team_id m = a \<and> before match_date m) ms"

definition get_match_features2 ::
  "database \<Rightarrow> int \<Rightarrow> int \<Rightarrow> date option \<Rightarrow> py_error + features option" where
  "get_match_features2 db home_team_api_id away_team_api_id match_date =
     (case team_by_api (teams db) home_team_api_id of
        None \<Rightarrow> Inr None
      | Some hr \<Rightarrow>
         (case team_by_api (teams db) away_team_api_id of
            None \<Rightarrow> Inr None
          | Some ar \<Rightarrow>
             (let h = team_id hr; a = team_id ar in
              case elo_or_default (elo_rows (teams db) h match_date) of
                Inl e \<Rightarrow> Inl e
              | Inr home_elo \<Rightarrow>
                 (case elo_or_default (elo_rows (teams db) a match_date) of
                    Inl e \<Rightarrow> Inl e
                  | Inr away_elo \<Rightarrow>
                     Inr (Some \<lparr>Away_Elo = away_elo, Home_Elo = home_elo,
                       H2H_Draws_Last_5 = draws (last_5 db (h2h_rows2 (matches db) h a match_date)),
                       Draw_Tendency_Home =
                         draw_tendency (last_5 db (home_rows2 (matches db) h match_date)),
                       Draw_Tendency_Away =
                         draw_tendency (last_5 db (away_rows2 (matches db) a match_date)),
                       Avg_Home_GD_Last_5 =
                         avg_home_gd (last_5 db (home_rows2 (matches db) h match_date)),
                       Avg_Away_GD_Last_5 =
                         avg_away_gd (last_5 db (away_rows2 (matches db) a match_date)),
                       Elo_Difference = home_elo - away_elo\<rparr>)))))"

section \<open>Ingestion: \<^verbatim>\<open>add_new_match\<close> and \<^verbatim>\<open>process_new_matches\<close>\<close>

text \<open>
  The dictionary \<^verbatim>\<open>match_data\<close> of \<^verbatim>\<open>add_new_match\<close>.  The key \<^verbatim>\<open>'match_id'\<close> (the id
  of the match at the API) may be missing; a key that is there with the value
  \<^verbatim>\<open>None\<close> gives the same rows in the duplicate check (\<^verbatim>\<open>api_match_id = NULL\<close> holds
  for no row) and the same inserted row, so both are \<open>None\<close>.  The names are read with
  \<^verbatim>\<open>match_data.get(..., f'Team {id}')\<close>.
\<close>

record match_data =
  md_match_id :: "int option"
  md_home_team_id :: int
  md_away_team_id :: int
  md_home_team_name :: "string option"
  md_away_team_name :: "string option"
  md_date :: date
  md_home_goals :: int
  md_away_goals :: int
  md_result :: int

fun str_nat :: "nat \<Rightarrow> string" where
  "str_nat n =
     (if n < 10 then [char_of (48 + n)]
      else str_nat (n div 10) @ [char_of (48 + n mod 10)])"

declare str_nat.simps [simp del]

definition str_int :: "int \<Rightarrow> string" where
  "str_int i = (if i < 0 then CHR ''-'' # str_nat (nat (- i)) else str_nat (nat i))"

definition default_team_name :: "int \<Rightarrow> string" where
  "default_team_name api = ''Team '' @ str_int api"

definition team_by_name :: "team list \<Rightarrow> string \<Rightarrow> team option" where
  "team_by_name ts nm = find (\<lambda>t. name t = nm) ts"

text \<open>\<^verbatim>\<open>cursor.lastrowid\<close> after an \<^verbatim>\<open>INSERT\<close> into a table whose key is
  \<^verbatim>\<open>INTEGER PRIMARY KEY AUTOINCREMENT\<close>: one more than the largest id of the table (no
  operation here deletes a row).\<close>

definition next_id :: "nat list \<Rightarrow> nat" where
  "next_id ids = Suc (fold max ids 0)"

text \<open>\<^verbatim>\<open>UPDATE teams SET api_team_id = ? WHERE team_id = ?\<close>.\<close>

definition set_api_team_id :: "team list \<Rightarrow> nat \<Rightarrow> int \<Rightarrow> team list" where
  "set_api_team_id ts tid api =
     map (\<lambda>t. if team_id t = tid then t\<lparr>api_team_id := Some api\<rparr> else t) ts"

text \<open>
  Lines 541--566 (home side) and 568--593 (away side) of \<^verbatim>\<open>add_new_match\<close>: look the
  team up by its API id, then by its name (and write the API id to that row), else
  insert it with the rating 1500.0.
\<close>

definition resolve_team :: "team list \<Rightarrow> datetime \<Rightarrow> int \<Rightarrow> string \<Rightarrow> team list \<times> nat" where
  "resolve_team ts now api nm =
     (case team_by_api ts api of
        Some t \<Rightarrow> (ts, team_id t)
      | None \<Rightarrow>
         (case team_by_name ts nm of
            Some t \<Rightarrow> (set_api_team_id ts (team_id t) api, team_id t)
          | None \<Rightarrow>
             (let new_id = next_id (map team_id ts)
              in (ts @ [\<lparr>team_id = new_id, api_team_id = Some api, name = nm,
                         current_elo_rating = 1500, updated_at = now\<rparr>], new_id))))"

text \<open>
  The duplicate check, lines 595--658.  The queries join \<^verbatim>\<open>matches\<close> with \<^verbatim>\<open>teams\<close> on
  both team ids, so a stored match is seen only when both its teams are in the
  table.
\<close>

definition joined :: "team list \<Rightarrow> match_row \<Rightarrow> bool" where
  "joined ts m = (team_by_id ts (home_team_id m) \<noteq> None \<and> team_by_id ts (away_team_id m) \<noteq> None)"

definition same_fixture :: "date \<Rightarrow> nat \<Rightarrow> nat \<Rightarrow> match_row \<Rightarrow> bool" where
  "same_fixture d h a m = (date m = d \<and> home_team_id m = h \<and> away_team_id m = a)"

definition existing_match ::
  "team list \<Rightarrow> match_row list \<Rightarrow> int option \<Rightarrow> date \<Rightarrow> nat \<Rightarrow> nat \<Rightarrow> match_row option" where
  "existing_match ts ms api d h a =
     (case api of
        Some k \<Rightarrow> find (\<lambda>m. (api_match_id m = Some k \<or> same_fixture d h a m) \<and> joined ts m) ms
      | None \<Rightarrow> find (\<lambda>m. same_fixture d h a m \<and> joined ts m) ms)"

text \<open>
  The constraints of the table \<^verbatim>\<open>matches\<close> that an \<^verbatim>\<open>INSERT\<close> can break (\<^verbatim>\<open>_init_db\<close>,
  lines 101--122): \<^verbatim>\<open>api_match_id INTEGER UNIQUE\<close>, and the unique index on
  \<^verbatim>\<open>(date, home_team_id, away_team_id) WHERE api_match_id IS NULL\<close>.
\<close>

definition integrity_error :: "match_row list \<Rightarrow> match_row \<Rightarrow> bool" where
  "integrity_error ms r =
     (case api_match_id r of
        Some k \<Rightarrow> list_ex (\<lambda>m. api_match_id m = Some k) ms
      | None \<Rightarrow> list_ex (\<lambda>m. api_match_id m = None \<and>
                   same_fixture (date r) (home_team_id r) (away_team_id r) m) ms)"

text \<open>The names of lines 538--539, and both sides resolved, home first.\<close>

definition home_team_name :: "match_data \<Rightarrow> string" where
  "home_team_name md =
     (case md_home_team_name md of Some n \<Rightarrow> n | None \<Rightarrow> default_team_name (md_home_team_id md))"

definition away_team_name :: "match_data \<Rightarrow> string" where
  "away_team_name md =
     (case md_away_team_name md of Some n \<Rightarrow> n | None \<Rightarrow> default_team_name (md_away_team_id md))"

definition resolve_teams :: "team list \<Rightarrow> datetime \<Rightarrow> match_data \<Rightarrow> team list \<times> nat \<times> nat" where
  "resolve_teams ts now md =
     (case resolve_team ts now (md_home_team_id md) (home_team_name md) of
        (ts1, h) \<Rightarrow>
          (case resolve_team ts1 now (md_away_team_id md) (away_team_name md) of
             (ts2, a) \<Rightarrow> (ts2, h, a)))"

text \<open>The row of the \<^verbatim>\<open>INSERT INTO matches\<close> of lines 661--674.\<close>

definition new_row :: "match_row list \<Rightarrow> match_data \<Rightarrow> nat \<Rightarrow> nat \<Rightarrow> match_row" where
  "new_row ms md h a =
     \<lparr>match_id = next_id (map match_id ms), api_match_id = md_match_id md,
      home_team_id = h, away_team_id = a, date = md_date md,
      home_goals = md_home_goals md, away_goals = md_away_goals md,
      result = md_result md\<rparr>"

text \<open>
  \<^verbatim>\<open>Database.add_new_match\<close> (line 530).  The result is the database and what the call
  returns: the id of the new row, or \<^verbatim>\<open>None\<close>.  The writes to \<^verbatim>\<open>teams\<close> are committed
  when the \<^verbatim>\<open>with\<close> block is left, also on \<^verbatim>\<open>return None\<close>.
\<close>

definition add_new_match :: "database \<Rightarrow> datetime \<Rightarrow> match_data \<Rightarrow> database \<times> nat option" where
  "add_new_match db now md =
     (case resolve_teams (teams db) now md of
        (ts2, h, a) \<Rightarrow>
          (let db2 = db\<lparr>teams := ts2\<rparr>
           in case existing_match ts2 (matches db) (md_match_id md) (md_date md) h a of
                Some m \<Rightarrow> (db2, None)
              | None \<Rightarrow>
                 (let row = new_row (matches db) md h a
                  in if integrity_error (matches db) row then (db2, None)
                     else (db2\<lparr>matches := matches db @ [row]\<rparr>, Some (match_id row)))))"

text \<open>The key of the index \<^verbatim>\<open>idx_matches_lookup\<close> (\<^verbatim>\<open>_init_db\<close>, lines 125--128).\<close>

definition fixture :: "match_row \<Rightarrow> date \<times> nat \<times> nat" where
  "fixture m = (date m, home_team_id m, away_team_id m)"

text \<open>
  Lines 133--151 of \<^verbatim>\<open>process_new_matches\<close>: after \<^verbatim>\<open>add_new_match\<close> has returned an
  id, \<^verbatim>\<open>update_elo_ratings\<close> runs on it; an exception there is caught by the
  \<^verbatim>\<open>except\<close> of the loop, after the row has been committed.  The Boolean tells whether
  \<^verbatim>\<open>added_count\<close> went up.  The table of predictions is not part of this development.
\<close>

definition add_and_update :: "database \<Rightarrow> datetime \<Rightarrow> match_data \<Rightarrow> database \<times> bool" where
  "add_and_update db now md =
     (case add_new_match db now md of
        (db1, None) \<Rightarrow> (db1, False)
      | (db1, Some mid) \<Rightarrow>
         (case update_elo_ratings db1 now mid of
            Inl e \<Rightarrow> (db1, True)
          | Inr db2 \<Rightarrow> (db2, True)))"

text \<open>
  An element of the list given to \<^verbatim>\<open>process_new_matches\<close>, as \<^verbatim>\<open>update_matches\<close>
  builds it (\<^verbatim>\<open>scheduler.py\<close>, lines 239--253).  \<^verbatim>\<open>rm_date\<close> is \<open>None\<close> for a text that
  \<^verbatim>\<open>datetime.fromisoformat\<close> rejects; a goal count is \<open>None\<close> when the API gave
  \<^verbatim>\<open>null\<close>.
\<close>

record raw_match =
  rm_match_id :: int
  rm_date :: "date option"
  rm_home_team_id :: int
  rm_home_team_name :: string
  rm_away_team_id :: int
  rm_away_team_name :: string
  rm_status :: string
  rm_home_goals :: "int option"
  rm_away_goals :: "int option"

text \<open>
  Lines 97--101: \<^verbatim>\<open>self.db.get_match_features(home, away, match_date=match_date)\<close>.
  \<^verbatim>\<open>get_match_features\<close> (\<^verbatim>\<open>database.py\<close>, line 389) has the parameters
  \<^verbatim>\<open>home_team_api_id\<close> and \<^verbatim>\<open>away_team_api_id\<close> only, so Python rejects the call with a
  \<^verbatim>\<open>TypeError\<close> (unexpected keyword argument) before the body runs.
\<close>

definition get_match_features_match_date ::
  "database \<Rightarrow> int \<Rightarrow> int \<Rightarrow> date option \<Rightarrow> py_error + features option" where
  "get_match_features_match_date db home_team_api_id away_team_api_id match_date = Inl TypeError"

text \<open>
  Lines 110--151, the rest of the loop body once the features are there.  A date that
  does not parse is skipped; \<^verbatim>\<open>match['home_goals'] > match['away_goals']\<close> on \<^verbatim>\<open>None\<close>
  is a \<^verbatim>\<open>TypeError\<close>, caught by the \<^verbatim>\<open>except\<close> of the loop.
\<close>

definition store_match :: "database \<Rightarrow> datetime \<Rightarrow> raw_match \<Rightarrow> database \<times> bool" where
  "store_match db now m =
     (case rm_date m of
        None \<Rightarrow> (db, False)
      | Some d \<Rightarrow>
         (case rm_home_goals m of
            None \<Rightarrow> (db, False)
          | Some hg \<Rightarrow>
             (case rm_away_goals m of
                None \<Rightarrow> (db, False)
              | Some ag \<Rightarrow>
                 add_and_update db now
                   \<lparr>md_match_id = Some (rm_match_id m),
                    md_home_team_id = rm_home_team_id m,
                    md_away_team_id = rm_away_team_id m,
                    md_home_team_name = Some (rm_home_team_name m),
                    md_away_team_name = Some (rm_away_team_name m),
                    md_date = d, md_home_goals = hg, md_away_goals = ag,
                    md_result = (if hg > ag then -1 else if hg = ag then 0 else 1)\<rparr>)))"

text \<open>The body of the loop of \<^verbatim>\<open>process_new_matches\<close> (lines 80--155) for one match.\<close>

definition process_match :: "database \<Rightarrow> datetime \<Rightarrow> raw_match \<Rightarrow> database \<times> bool" where
  "process_match db now m =
     (if rm_status m \<noteq> ''FINISHED'' then (db, False)
      else if list_ex (\<lambda>r. api_match_id r = Some (rm_match_id m)) (matches db) then (db, False)
      else (case get_match_features_match_date db (rm_home_team_id m) (rm_away_team_id m)
                   (rm_date m) of
              Inl e \<Rightarrow> (db, False)
            | Inr fs \<Rightarrow> store_match db now m))"

text \<open>The loop of \<^verbatim>\<open>process_new_matches\<close> (lines 79--155): the database after it, and
  \<^verbatim>\<open>added_count\<close>.\<close>

fun process_matches_loop :: "database \<Rightarrow> datetime \<Rightarrow> raw_match list \<Rightarrow> database \<times> nat" where
  "process_matches_loop db now [] = (db, 0)"
| "process_matches_loop db now (m # rest) =
     (case process_match db now m of
        (db1, added) \<Rightarrow>
          (case process_matches_loop db1 now rest of
             (db2, n) \<Rightarrow> (db2, (if added then 1 else 0) + n)))"

text \<open>
  \<^verbatim>\<open>MatchUpdater.process_new_matches\<close> (\<^verbatim>\<open>scheduler.py\<close>, line 74).  Line 76,
  \<^verbatim>\<open>model_service = ModelService()\<close>, is before the loop and outside its \<^verbatim>\<open>try\<close>: the
  constructor loads the model and the scaler with \<^verbatim>\<open>joblib.load\<close> and raises again
  what that raises.  \<open>model_error\<close> is that exception, if any; it leaves
  \<^verbatim>\<open>process_new_matches\<close>.
\<close>

definition process_new_matches ::
  "py_error option \<Rightarrow> database \<Rightarrow> datetime \<Rightarrow> raw_match list \<Rightarrow> py_error + database \<times> nat" where
  "process_new_matches model_error db now ms =
     (case model_error of
        Some e \<Rightarrow> Inl e
      | None \<Rightarrow> Inr (process_matches_loop db now ms))"

section \<open>Full rebuild: \<^verbatim>\<open>process_historical_matches\<close> and \<^verbatim>\<open>fix_elo_ratings\<close>\<close>

text \<open>\<^verbatim>\<open>UPDATE teams SET current_elo_rating = 1500.0\<close>.\<close>

definition reset_elo_ratings :: "database \<Rightarrow> database" where
  "reset_elo_ratings db = db\<lparr>teams := map (\<lambda>t. t\<lparr>current_elo_rating := 1500\<rparr>) (teams db)\<rparr>"

text \<open>\<^verbatim>\<open>SELECT match_id, date FROM matches ORDER BY date ASC\<close>.\<close>

definition chronological :: "database \<Rightarrow> nat list" where
  "chronological db = map match_id (order_by_date_asc db (matches db))"

text \<open>
  The loop over the match ids (\<^verbatim>\<open>database.py\<close>, lines 329--343; \<^verbatim>\<open>fix_elo.py\<close>, lines
  116--130), for either \<^verbatim>\<open>update_elo_ratings\<close>.  An id that is in \<^verbatim>\<open>processed_matches\<close>
  is skipped; an exception of the update is logged and the loop goes on, the id not
  being added to the set.
\<close>

fun process_ids ::
  "(database \<Rightarrow> datetime \<Rightarrow> nat \<Rightarrow> py_error + database) \<Rightarrow> datetime \<Rightarrow> nat list \<Rightarrow>
     database \<Rightarrow> nat list \<Rightarrow> database \<times> nat list" where
  "process_ids upd now [] db processed = (db, processed)"
| "process_ids upd now (mid # rest) db processed =
     (if mid \<in> set processed then process_ids upd now rest db processed
      else (case upd db now mid of
              Inl e \<Rightarrow> process_ids upd now rest db processed
            | Inr db1 \<Rightarrow> process_ids upd now rest db1 (mid # processed)))"

text \<open>
  The fold the rebuild stands for: every stored event, in the given order, through
  the rating update of its row; an event whose update raises is passed over.
\<close>

definition apply_or_skip :: "datetime \<Rightarrow> database \<Rightarrow> match_row \<Rightarrow> database" where
  "apply_or_skip now db m = (case apply_match db now m of Inl e \<Rightarrow> db | Inr db1 \<Rightarrow> db1)"

text \<open>\<^verbatim>\<open>SELECT MAX(date) FROM matches\<close>.\<close>

definition max_date :: "match_row list \<Rightarrow> date option" where
  "max_date ms = (case ms of [] \<Rightarrow> None | m # rest \<Rightarrow> Some (fold max (map date rest) (date m)))"

definition set_last_fetched_date :: "database \<Rightarrow> date \<Rightarrow> database" where
  "set_last_fetched_date db d = db\<lparr>last_fetched_date := Some d\<rparr>"

text \<open>\<^verbatim>\<open>Database.process_historical_matches\<close> (line 297), when SQLite itself raises
  nothing.\<close>

definition process_historical_matches :: "database \<Rightarrow> datetime \<Rightarrow> database" where
  "process_historical_matches db now =
     (let db0 = reset_elo_ratings db in
      if matches db0 = [] then db0
      else (case process_ids update_elo_ratings now (chronological db0) db0 [] of
              (db1, processed) \<Rightarrow>
                (case max_date (matches db1) of
                   Some d \<Rightarrow> set_last_fetched_date db1 d
                 | None \<Rightarrow> db1)))"

text \<open>\<^verbatim>\<open>EloFixer.process_matches_chronologically\<close> (\<^verbatim>\<open>fix_elo.py\<close>, line 96).\<close>

definition process_matches_chronologically :: "database \<Rightarrow> datetime \<Rightarrow> database" where
  "process_matches_chronologically db now =
     fst (process_ids fixer_update_elo_ratings now (chronological db) db [])"

text \<open>
  \<^verbatim>\<open>EloFixer.fix_elo_ratings\<close> (line 167) works on two files: the database and its
  backup.  \<^verbatim>\<open>backup_database\<close> raises \<^verbatim>\<open>FileNotFoundError\<close> when there is no database
  file.  The other steps raise only when SQLite or the file system does; \<open>fault\<close>
  names the step where that happens, if any: the connection of
  \<^verbatim>\<open>reset_elo_ratings\<close>, the \<^verbatim>\<open>SELECT\<close> of \<^verbatim>\<open>process_matches_chronologically\<close> before
  its loop, its last \<^verbatim>\<open>commit\<close> after the loop (every update of the loop has been
  committed by then, on the connection of \<^verbatim>\<open>update_elo_ratings\<close>), or
  \<^verbatim>\<open>verify_elo_ratings\<close>, which only reads.  The \<^verbatim>\<open>except\<close> branch copies the backup
  over the database when a backup file is there, and raises again.
\<close>

record files =
  db_file :: "database option"
  backup_file :: "database option"

datatype fault = AtReset | AtSelect | AtLastCommit | AtVerify

definition restore :: "files \<Rightarrow> files" where
  "restore fs = (case backup_file fs of None \<Rightarrow> fs | Some b \<Rightarrow> fs\<lparr>db_file := Some b\<rparr>)"

definition fix_elo_ratings :: "files \<Rightarrow> datetime \<Rightarrow> fault option \<Rightarrow> py_error option \<times> files" where
  "fix_elo_ratings fs now fault =
     (case db_file fs of
        None \<Rightarrow> (Some FileNotFoundError, restore fs)
      | Some db \<Rightarrow>
         (let fs1 = fs\<lparr>backup_file := Some db\<rparr> in
          if fault = Some AtReset then (Some OSError, restore fs1)
          else
            (let fs2 = fs1\<lparr>db_file := Some (reset_elo_ratings db)\<rparr> in
             if fault = Some AtSelect then (Some OSError, restore fs2)
             else
               (let fs3 = fs2\<lparr>db_file :=
                            Some (process_matches_chronologically (reset_elo_ratings db) now)\<rparr> in
                if fault = Some AtLastCommit \<or> fault = Some AtVerify
                then (Some OSError, restore fs3)
                else (None, fs3)))))"

section \<open>Synchronisation: \<^verbatim>\<open>update_matches\<close>\<close>

text \<open>\<^verbatim>\<open>get_last_match_date\<close> (\<^verbatim>\<open>scheduler.py\<close>, line 39): \<^verbatim>\<open>MAX(date)\<close>, parsed, at
  midnight UTC.\<close>

definition get_last_match_date :: "database \<Rightarrow> datetime option" where
  "get_last_match_date db = map_option midnight (max_date (matches db))"

text \<open>
  \<^verbatim>\<open>_get_season_end_date\<close> (line 58) calls \<^verbatim>\<open>self.football_api._make_request()\<close> with
  no argument, and \<^verbatim>\<open>_make_request(self, endpoint, params=None)\<close> needs \<^verbatim>\<open>endpoint\<close>:
  the call is a \<^verbatim>\<open>TypeError\<close>, caught by the \<^verbatim>\<open>except\<close> of the function, which returns
  \<^verbatim>\<open>datetime.now(timezone.utc)\<close>, here the reading \<open>t\<close> of the clock.
\<close>

record season_data =
  sd_error :: bool
  sd_end_date :: "date option"

definition make_request_no_endpoint :: "py_error + season_data" where
  "make_request_no_endpoint = Inl TypeError"

definition get_season_end_date :: "datetime \<Rightarrow> datetime" where
  "get_season_end_date t =
     (case make_request_no_endpoint of
        Inl e \<Rightarrow> t
      | Inr sd \<Rightarrow>
         (if sd_error sd then t
          else (case sd_end_date sd of Some d \<Rightarrow> midnight d | None \<Rightarrow> t)))"

text \<open>\<^verbatim>\<open>_get_date_chunks\<close> (line 160).\<close>

function get_date_chunks :: "datetime \<Rightarrow> datetime \<Rightarrow> nat \<Rightarrow> (datetime \<times> datetime) list" where
  "get_date_chunks current_start end_date chunk_size =
     (if current_start < end_date
      then (let chunk_end = min (current_start + timedelta_days (int chunk_size)) end_date
            in (current_start, chunk_end) #
               get_date_chunks (chunk_end + timedelta_days 1) end_date chunk_size)
      else [])"
  by pat_completeness auto
termination
  by (relation "measure (\<lambda>(s, e, c). nat (e - s))") (auto simp: timedelta_days_def)

declare get_date_chunks.simps [simp del]

text \<open>
  What the request for one chunk comes to (lines 217--258): an exception, a
  dictionary with the key \<^verbatim>\<open>'error'\<close>, a dictionary without \<^verbatim>\<open>'matches'\<close>, or the list
  of the records of the chunk.  A record that lacks a key, or whose \<^verbatim>\<open>utcDate\<close> does
  not parse, raises inside the \<^verbatim>\<open>try\<close> of the chunk: the records before it stay in
  \<^verbatim>\<open>all_matches\<close>, the ones after it are not read.
\<close>

datatype api_record = Malformed | Record raw_match

datatype fetch_outcome = Raised | ErrorDict | NoMatches | Matches "api_record list"

fun well_formed_prefix :: "api_record list \<Rightarrow> raw_match list" where
  "well_formed_prefix [] = []"
| "well_formed_prefix (Malformed # rs) = []"
| "well_formed_prefix (Record m # rs) = m # well_formed_prefix rs"

definition chunk_matches :: "fetch_outcome \<Rightarrow> raw_match list" where
  "chunk_matches out = (case out of Matches rs \<Rightarrow> well_formed_prefix rs | _ \<Rightarrow> [])"

definition chunk_size :: nat where
  "chunk_size = 5"

text \<open>\<^verbatim>\<open>datetime(2024, 8, 1, tzinfo=timezone.utc)\<close>: day 19936 after 1970-01-01.\<close>

definition season_start :: datetime where
  "season_start = midnight 19936"

text \<open>The bounds of the window, lines 188--196.\<close>

definition to_date :: "datetime \<Rightarrow> datetime" where
  "to_date season_end_date = season_end_date + timedelta_days 1"

definition from_date :: "datetime option \<Rightarrow> datetime" where
  "from_date last_match_date =
     (case last_match_date of
        Some l \<Rightarrow> midnight (date_of (l - timedelta_days 10))
      | None \<Rightarrow> season_start)"

text \<open>\<^verbatim>\<open>all_matches\<close> after the loop over the chunks (lines 208--259).\<close>

definition all_matches :: "(date \<times> date \<Rightarrow> fetch_outcome) \<Rightarrow> (date \<times> date) list \<Rightarrow> raw_match list" where
  "all_matches fetch requests = concat (map (\<lambda>r. chunk_matches (fetch r)) requests)"

text \<open>
  \<^verbatim>\<open>MatchUpdater.update_matches\<close> (line 170).  \<open>t\<close> is the clock when
  \<^verbatim>\<open>_get_season_end_date\<close> reads it, \<open>now\<close> the reading of line 174, \<open>fetch\<close> what the
  API does for the \<^verbatim>\<open>dateFrom\<close> and \<^verbatim>\<open>dateTo\<close> of a chunk, \<open>model_error\<close> what
  \<^verbatim>\<open>ModelService()\<close> raises.  The result is the database and the list of the requests
  made.  An exception that leaves \<^verbatim>\<open>process_new_matches\<close> is caught by the outer
  \<^verbatim>\<open>except\<close> (lines 270--272), which logs it: line 267 is not reached.  The write of
  \<^verbatim>\<open>set_last_fetched_date\<close> is taken to go through.
\<close>

definition update_matches ::
  "py_error option \<Rightarrow> database \<Rightarrow> datetime \<Rightarrow> datetime \<Rightarrow> (date \<times> date \<Rightarrow> fetch_outcome) \<Rightarrow>
     database \<times> (date \<times> date) list" where
  "update_matches model_error db t now fetch =
     (let season_end_date = get_season_end_date t;
          last_match_date = get_last_match_date db in
      if (case last_match_date of
            Some l \<Rightarrow> date_of l \<ge> date_of season_end_date | None \<Rightarrow> False)
      then (set_last_fetched_date db (date_of now), [])
      else if from_date last_match_date > to_date season_end_date
      then (set_last_fetched_date db (date_of now), [])
      else
        (let date_chunks = get_date_chunks (from_date last_match_date)
                             (to_date season_end_date) chunk_size;
             requests = map (\<lambda>(chunk_start, chunk_end).
                               (date_of chunk_start, date_of chunk_end)) date_chunks
         in if all_matches fetch requests \<noteq> []
            then (case process_new_matches model_error db now (all_matches fetch requests) of
                    Inl e \<Rightarrow> (db, requests)
                  | Inr (db1, added_count) \<Rightarrow>
                      (set_last_fetched_date db1 (date_of now), requests))
            else (set_last_fetched_date db (date_of now), requests)))"

section \<open>Upstream requests: \<^verbatim>\<open>_make_request\<close>\<close>

text \<open>
  What one attempt of \<^verbatim>\<open>_make_request\<close> (\<^verbatim>\<open>football_api.py\<close>, line 35) meets.  On a 429
  the wait is read by
  \<^verbatim>\<open>float(error_data.get('message', '').split('Wait ')[1].split(' seconds')[0])\<close> after
  \<^verbatim>\<open>json.loads\<close>: that gives a number, or raises one of \<^verbatim>\<open>JSONDecodeError\<close>,
  \<^verbatim>\<open>IndexError\<close>, \<^verbatim>\<open>ValueError\<close>, which the inner \<^verbatim>\<open>except\<close> catches, or raises
  something else (the body is JSON but not a dictionary, the message is not a
  string), which goes to the outer \<^verbatim>\<open>except\<close>.  A 200 whose body is not JSON, and a
  request that fails, go to the outer \<^verbatim>\<open>except\<close> as well.  The number of \<open>Wait\<close> is a
  real number: a message whose wait \<^verbatim>\<open>float\<close> reads as \<^verbatim>\<open>nan\<close> or \<^verbatim>\<open>inf\<close> is not
  covered.
\<close>

datatype suggested_wait = Wait real | Unparsable | OtherException

datatype response = Status200 | Status429 suggested_wait | StatusOther | RequestError

datatype request_result = Data | Error

definition max_retries :: nat where
  "max_retries = 3"

definition initial_retry_delay :: real where
  "initial_retry_delay = 5"

definition backoff :: "nat \<Rightarrow> real" where
  "backoff attempt = initial_retry_delay * 2 ^ attempt"

text \<open>The \<^verbatim>\<open>wait_time\<close> of lines 72--77.\<close>

definition rate_limit_wait :: "nat \<Rightarrow> real option \<Rightarrow> real" where
  "rate_limit_wait attempt suggested =
     min (case suggested of Some w \<Rightarrow> w | None \<Rightarrow> backoff attempt) 60"

text \<open>
  The body of the loop for one attempt (lines 49--92): it returns what the call
  returns, or sleeps for \<^verbatim>\<open>wait_time\<close> and goes on (\<^verbatim>\<open>continue\<close>).  The outer \<^verbatim>\<open>except\<close>
  retries after \<^verbatim>\<open>initial_retry_delay * 2 ** attempt\<close> while
  \<^verbatim>\<open>attempt < self.max_retries\<close>, and returns an error dictionary on the last attempt.
\<close>

datatype step = Return request_result | Sleep real

definition on_exception :: "nat \<Rightarrow> step" where
  "on_exception attempt = (if attempt < max_retries then Sleep (backoff attempt) else Return Error)"

definition attempt_body :: "nat \<Rightarrow> response \<Rightarrow> step" where
  "attempt_body attempt r =
     (case r of
        Status200 \<Rightarrow> Return Data
      | Status429 (Wait w) \<Rightarrow> Sleep (rate_limit_wait attempt (Some w))
      | Status429 Unparsable \<Rightarrow> Sleep (rate_limit_wait attempt None)
      | Status429 OtherException \<Rightarrow> on_exception attempt
      | StatusOther \<Rightarrow> Return Error
      | RequestError \<Rightarrow> on_exception attempt)"

text \<open>
  The loop \<^verbatim>\<open>for attempt in range(self.max_retries + 1)\<close> over the attempts that are
  left; \<open>responses\<close> tells what attempt \<open>n\<close> meets.  The result is what the call
  returns (the error dictionary of line 94 when the loop runs out), with the
  attempts made and the arguments of \<^verbatim>\<open>asyncio.sleep\<close>, in order.
\<close>

fun attempts ::
  "(nat \<Rightarrow> response) \<Rightarrow> nat list \<Rightarrow> request_result \<times> nat list \<times> real list" where
  "attempts responses [] = (Error, [], [])"
| "attempts responses (attempt # rest) =
     (case attempt_body attempt (responses attempt) of
        Return res \<Rightarrow> (res, [attempt], [])
      | Sleep wait_time \<Rightarrow>
         (case attempts responses rest of
            (res, made, sleeps) \<Rightarrow> (res, attempt # made, wait_time # sleeps)))"

definition make_request :: "(nat \<Rightarrow> response) \<Rightarrow> request_result \<times> nat list \<times> real list" where
  "make_request responses = attempts responses [0 ..< max_retries + 1]"

section \<open>The rating engine\<close>





lemma team_by_id_set_elo:
  "team_by_id (set_elo ts now tid r) x =
     map_option (\<lambda>t. if team_id t = tid then t\<lparr>current_elo_rating := r, updated_at := now\<rparr> else t)
       (team_by_id ts x)"
  by (induction ts) (auto simp: team_by_id_def set_elo_def)

lemma team_by_id_team_id: "team_by_id ts x = Some t \<Longrightarrow> team_id t = x"
  by (induction ts) (auto simp: team_by_id_def split: if_splits)

lemma team_by_id_set_elo_None:
  "team_by_id (set_elo ts now tid r) x = None \<longleftrightarrow> team_by_id ts x = None"
  by (simp add: team_by_id_set_elo)

lemma elo_after_set_elo:
  "map_option current_elo_rating (team_by_id (set_elo ts now tid r) x) =
     (if x = tid \<and> team_by_id ts x \<noteq> None then Some r
      else map_option current_elo_rating (team_by_id ts x))"
  by (cases "team_by_id ts x") (auto simp: team_by_id_set_elo dest: team_by_id_team_id)

lemma rating_of_apply_match:
  assumes "rating_of db (home_team_id m) = Some rH"
    and "rating_of db (away_team_id m) = Some rA"
  shows "\<exists>db'. apply_match db now m = Inr db' \<and> matches db' = matches db \<and>
           last_fetched_date db' = last_fetched_date db \<and>
           (\<forall>x. rating_of db' x =
              (if x = away_team_id m then Some (new_away_elo rH rA (result m))
               else if x = home_team_id m then Some (new_home_elo rH rA (result m))
               else rating_of db x))"
proof -
  from assms obtain ht awt where
    ht: "team_by_id (teams db) (home_team_id m) = Some ht" "current_elo_rating ht = rH" and
    awt: "team_by_id (teams db) (away_team_id m) = Some awt" "current_elo_rating awt = rA"
    by (auto simp: rating_of_def)
  let ?ts1 = "set_elo (teams db) now (home_team_id m) (new_home_elo rH rA (result m))"
  let ?ts2 = "set_elo ?ts1 now (away_team_id m) (new_away_elo rH rA (result m))"
  have a: "apply_match db now m = Inr (db\<lparr>teams := ?ts2\<rparr>)"
    by (simp add: apply_match_def ht awt Let_def)
  have n1: "team_by_id ?ts1 (away_team_id m) \<noteq> None"
    by (simp add: team_by_id_set_elo_None awt)
  have r: "rating_of (db\<lparr>teams := ?ts2\<rparr>) x =
             (if x = away_team_id m then Some (new_away_elo rH rA (result m))
              else if x = home_team_id m then Some (new_home_elo rH rA (result m))
              else rating_of db x)" for x
    using n1 by (simp add: rating_of_def elo_after_set_elo ht)
  show ?thesis unfolding a using r by simp
qed


lemma match_by_id_update:
  "match_by_id db mid = Some m \<Longrightarrow> update_elo_ratings db now mid = apply_match db now m"
  "match_by_id db mid = Some m \<Longrightarrow> fixer_update_elo_ratings db now mid = apply_match db now m"
  by (simp_all add: update_elo_ratings_def fixer_update_elo_ratings_def)




subsection \<open>Double arithmetic\<close>

lemma rne_of_int: "rne (of_int n) = n"
  by (simp add: rne_def)

lemma rne_tie_even: "even n \<Longrightarrow> rne (of_int n + 1 / 2) = n"
proof -
  have "\<lfloor>of_int n + (1 / 2 :: real)\<rfloor> = n" by linarith
  then show "even n \<Longrightarrow> rne (of_int n + 1 / 2) = n"
    by (simp add: rne_def Let_def)
qed

lemma floor_log2:
  assumes "2 powr of_int k \<le> x" and "x < 2 powr (of_int k + 1)"
  shows "\<lfloor>log 2 x\<rfloor> = k"
proof -
  have pos: "0 < x" using assms(1) by (smt (verit) powr_gt_zero)
  have "of_int k \<le> log 2 x" using assms(1) pos by (simp add: le_log_iff)
  moreover have "log 2 x < of_int k + 1" using assms(2) pos by (simp add: log_less_iff)
  ultimately show ?thesis by linarith
qed

text \<open>A number that has no more than 53 bits is its own rounding; one that lies half
  way between two doubles goes to the one with the even last bit.\<close>

lemma fl_exact:
  assumes "2 powr of_int k \<le> \<bar>x\<bar>" and "\<bar>x\<bar> < 2 powr (of_int k + 1)"
    and "x = of_int n * 2 powr (of_int k - 52)"
  shows "fl x = x"
proof -
  have x0: "x \<noteq> 0" using assms(1) by (smt (verit) powr_gt_zero)
  have u: "\<lfloor>log 2 \<bar>x\<bar>\<rfloor> = k" using assms(1,2) by (rule floor_log2)
  have q: "x / 2 powr (of_int k - 52) = of_int n" using assms(3) by simp
  have "fl x = of_int (rne (x / 2 powr (of_int k - 52))) * 2 powr (of_int k - 52)"
    using x0 by (simp add: fl_def u Let_def)
  also have "\<dots> = of_int n * 2 powr (of_int k - 52)" by (simp only: q rne_of_int)
  finally show ?thesis by (simp only: assms(3))
qed

lemma fl_tie:
  assumes "2 powr of_int k \<le> \<bar>x\<bar>" and "\<bar>x\<bar> < 2 powr (of_int k + 1)"
    and "x = (of_int n + 1 / 2) * 2 powr (of_int k - 52)" and "even n"
  shows "fl x = of_int n * 2 powr (of_int k - 52)"
proof -
  have x0: "x \<noteq> 0" using assms(1) by (smt (verit) powr_gt_zero)
  have u: "\<lfloor>log 2 \<bar>x\<bar>\<rfloor> = k" using assms(1,2) by (rule floor_log2)
  have q: "x / 2 powr (of_int k - 52) = of_int n + 1 / 2" using assms(3) by simp
  have "fl x = of_int (rne (x / 2 powr (of_int k - 52))) * 2 powr (of_int k - 52)"
    using x0 by (simp add: fl_def u Let_def)
  also have "\<dots> = of_int n * 2 powr (of_int k - 52)"
    by (simp only: q rne_tie_even [OF assms(4)])
  finally show ?thesis .
qed

lemma fl_0: "fl 0 = 0"
  by (simp add: fl_def)


text \<open>The roundings that the update of the example meets.\<close>

lemma fl_values:
  "fl 1 = 1" "fl 2 = 2" "fl (1 / 2) = 1 / 2" "fl (- (1 / 2)) = - (1 / 2)"
  "fl 15 = 15" "fl (- 15) = - 15" "fl 2095 = 2095" "fl 2110 = 2110"
  "fl (2040 + 1 / 2 ^ 42) = 2040 + 1 / 2 ^ 42"
proof -
  show "fl 1 = 1"
    by (rule fl_exact [where k = 0 and n = "2 ^ 52"]) (simp_all add: powr_minus powr_numeral)
  show "fl 2 = 2"
    by (rule fl_exact [where k = 1 and n = "2 ^ 52"])
       (simp_all add: powr_minus_divide powr_numeral powr_diff)
  show "fl (1 / 2) = 1 / 2"
    by (rule fl_exact [where k = "- 1" and n = "2 ^ 52"])
       (simp_all add: powr_minus_divide powr_numeral powr_diff)
  show "fl (- (1 / 2)) = - (1 / 2)"
    by (rule fl_exact [where k = "- 1" and n = "- (2 ^ 52)"])
       (simp_all add: powr_minus_divide powr_numeral powr_diff)
  show "fl 15 = 15"
    by (rule fl_exact [where k = 3 and n = "15 * 2 ^ 49"])
       (simp_all add: powr_minus_divide powr_numeral powr_diff)
  show "fl (- 15) = - 15"
    by (rule fl_exact [where k = 3 and n = "- (15 * 2 ^ 49)"])
       (simp_all add: powr_minus_divide powr_numeral powr_diff)
  show "fl 2095 = 2095"
    by (rule fl_exact [where k = 11 and n = "2095 * 2 ^ 41"])
       (simp_all add: powr_minus_divide powr_numeral powr_diff)
  show "fl 2110 = 2110"
    by (rule fl_exact [where k = 11 and n = "2110 * 2 ^ 41"])
       (simp_all add: powr_minus_divide powr_numeral powr_diff)
  show "fl (2040 + 1 / 2 ^ 42) = 2040 + 1 / 2 ^ 42"
    by (rule fl_exact [where k = 10 and n = "2040 * 2 ^ 42 + 1"])
       (simp_all add: powr_minus_divide powr_numeral powr_diff)
qed

lemma fl_ties:
  "fl (2110 + 1 / 2 ^ 42) = 2110" "fl (2055 + 1 / 2 ^ 42) = 2055"
proof -
  have "fl (2110 + 1 / 2 ^ 42) = of_int (2110 * 2 ^ 41) * 2 powr (of_int 11 - 52)"
    by (rule fl_tie) (simp_all add: powr_minus_divide powr_numeral powr_diff)
  then show "fl (2110 + 1 / 2 ^ 42) = 2110"
    by (simp add: powr_minus_divide powr_numeral)
  have "fl (2055 + 1 / 2 ^ 42) = of_int (2055 * 2 ^ 41) * 2 powr (of_int 11 - 52)"
    by (rule fl_tie) (simp_all add: powr_minus_divide powr_numeral powr_diff)
  then show "fl (2055 + 1 / 2 ^ 42) = 2055"
    by (simp add: powr_minus_divide powr_numeral)
qed


lemma elo_f_example:
  assumes "h = 2040 + 1 / 2 ^ 42"
  shows "fl h = h"
    and "home_expected_f h 2110 = 1 / 2"
    and "away_expected_f h 2110 = 1 / 2"
    and "new_home_elo_f h 2110 (- 1) = 2055"
    and "new_away_elo_f h 2110 (- 1) = 2095"
proof -
  show "fl h = h" by (simp only: assms fl_values)
  have "h + 70 = 2110 + 1 / 2 ^ 42" using assms by simp
  then have "fl (h + 70) = 2110" by (simp only: fl_ties)
  then have "pow10 (fl (fl (2110 - fl (h + 70)) / 400)) = 1"
    by (simp add: pow10_def fl_0 fl_values)
  then show he: "home_expected_f h 2110 = 1 / 2"
    by (simp add: home_expected_f_def fl_values)
  show ae: "away_expected_f h 2110 = 1 / 2"
    by (simp only: away_expected_f_def he) (simp add: fl_values)
  have "h + 15 = 2055 + 1 / 2 ^ 42" using assms by simp
  then have r: "fl (h + 15) = 2055" by (simp only: fl_ties)
  have "fl (30 * fl (home_actual (- 1) - 1 / 2)) = 15"
    by (simp add: home_actual_def fl_values)
  then show "new_home_elo_f h 2110 (- 1) = 2055"
    by (simp only: new_home_elo_f_def he r)
  have "fl (30 * fl (away_actual (- 1) - 1 / 2)) = - 15"
    by (simp add: away_actual_def fl_values)
  then show "new_away_elo_f h 2110 (- 1) = 2095"
    by (simp only: new_away_elo_f_def ae) (simp add: fl_values)
qed

text \<open>
  Claim C9, as stated, fails on the doubles that the code computes with.  The home
  rating is the double \<open>2040 + 1 / 2 ^ 42\<close>, the away rating 2110, the home side
  wins.  The exponent is 0, both expected scores are 1/2 and add up to 1, the two
  changes computed are 15 and -15; but \<open>2055 + 1 / 2 ^ 42\<close> is no double and is
  stored as 2055, so the sum of the two stored ratings goes down by \<open>1 / 2 ^ 42\<close>,
  and the change of the stored home rating is not the negation of the change of the
  away rating.
\<close>

theorem elo_sum_changes_in_doubles:
  "fl (2040 + 1 / 2 ^ 42) = 2040 + 1 / 2 ^ 42 \<and> fl 2110 = 2110 \<and>
   home_expected_f (2040 + 1 / 2 ^ 42) 2110 + away_expected_f (2040 + 1 / 2 ^ 42) 2110 = 1 \<and>
   new_home_elo_f (2040 + 1 / 2 ^ 42) 2110 (- 1) = 2055 \<and>
   new_away_elo_f (2040 + 1 / 2 ^ 42) 2110 (- 1) = 2095 \<and>
   new_home_elo_f (2040 + 1 / 2 ^ 42) 2110 (- 1) + new_away_elo_f (2040 + 1 / 2 ^ 42) 2110 (- 1)
     \<noteq> (2040 + 1 / 2 ^ 42) + 2110 \<and>
   new_home_elo_f (2040 + 1 / 2 ^ 42) 2110 (- 1) - (2040 + 1 / 2 ^ 42)
     \<noteq> - (new_away_elo_f (2040 + 1 / 2 ^ 42) 2110 (- 1) - 2110)"
proof -
  note e = elo_f_example [OF refl]
  have "(2055 :: real) + 2095 \<noteq> (2040 + 1 / 2 ^ 42) + 2110" by simp
  moreover have "(2055 :: real) - (2040 + 1 / 2 ^ 42) \<noteq> - (2095 - 2110)" by simp
  moreover have "(1 / 2 :: real) + 1 / 2 = 1" by simp
  ultimately show ?thesis by (simp only: e fl_values simp_thms)
qed

text \<open>
  Claim C9, amended.  In exact arithmetic (the formulas of \<^verbatim>\<open>update_elo_ratings\<close> over
  the real numbers, without the rounding of doubles) rating updates are zero-sum:
  for every result the actual scores of the two sides add up to 1, the expected
  scores add up to 1, and the change of the home rating is the negation of the
  change of the away rating; for a stored match between two different teams, both
  \<^verbatim>\<open>update_elo_ratings\<close> (of \<^verbatim>\<open>Database\<close> and of \<^verbatim>\<open>EloFixer\<close>) leave the sum of the two
  ratings as it was.
\<close>

theorem elo_zero_sum:
  assumes "match_by_id db mid = Some m"
    and "rating_of db (home_team_id m) = Some rH"
    and "rating_of db (away_team_id m) = Some rA"
    and "home_team_id m \<noteq> away_team_id m"
  shows "(\<forall>r. home_actual r + away_actual r = 1) \<and>
         (\<forall>x y. home_expected x y + away_expected x y = 1) \<and>
         (\<forall>x y r. new_home_elo x y r - x = - (new_away_elo x y r - y)) \<and>
         (\<exists>db' rH' rA'.
            update_elo_ratings db now mid = Inr db' \<and>
            fixer_update_elo_ratings db now mid = Inr db' \<and>
            rating_of db' (home_team_id m) = Some rH' \<and>
            rating_of db' (away_team_id m) = Some rA' \<and>
            rH' - rH = - (rA' - rA) \<and> rH' + rA' = rH + rA)"
proof -
  have act: "home_actual r + away_actual r = 1" for r
    by (simp add: home_actual_def away_actual_def)
  have ex: "home_expected x y + away_expected x y = 1" for x y
    by (simp add: away_expected_def)
  have delta: "new_home_elo x y r - x = - (new_away_elo x y r - y)" for x y r
  proof -
    have "away_actual r = 1 - home_actual r" using act [of r] by simp
    then show ?thesis
      by (simp add: new_home_elo_def new_away_elo_def away_expected_def right_diff_distrib)
  qed
  from rating_of_apply_match [OF assms(2,3), of now] obtain db' where
    a: "apply_match db now m = Inr db'" and
    r: "\<And>x. rating_of db' x =
              (if x = away_team_id m then Some (new_away_elo rH rA (result m))
               else if x = home_team_id m then Some (new_home_elo rH rA (result m))
               else rating_of db x)"
    by blast
  have st: "update_elo_ratings db now mid = Inr db' \<and>
            fixer_update_elo_ratings db now mid = Inr db' \<and>
            rating_of db' (home_team_id m) = Some (new_home_elo rH rA (result m)) \<and>
            rating_of db' (away_team_id m) = Some (new_away_elo rH rA (result m))"
    using assms(1,4) a by (simp add: match_by_id_update r)
  have sum: "new_home_elo rH rA (result m) + new_away_elo rH rA (result m) = rH + rA"
    using delta [of rH rA "result m"] by simp
  show ?thesis
    using act ex delta st sum by blast
qed

theorem elo_zero_sum_witness:
  "\<exists>db' rH' rA'. fixer_update_elo_ratings
     \<lparr>teams = [\<lparr>team_id = 1, api_team_id = Some 57, name = ''Arsenal'',
                 current_elo_rating = 1540, updated_at = 0\<rparr>,
               \<lparr>team_id = 2, api_team_id = Some 61, name = ''Chelsea'',
                 current_elo_rating = 1480, updated_at = 0\<rparr>],
      matches = [\<lparr>match_id = 7, api_match_id = None, home_team_id = 2, away_team_id = 1,
                   date = 19950, home_goals = 1, away_goals = 1, result = 0\<rparr>],
      last_fetched_date = None, lookup_index = True\<rparr> 86400 7 = Inr db' \<and>
     rating_of db' 2 = Some rH' \<and> rating_of db' 1 = Some rA' \<and> rH' + rA' = 1480 + 1540"
  using elo_zero_sum [of
     "\<lparr>teams = [\<lparr>team_id = 1, api_team_id = Some 57, name = ''Arsenal'',
                 current_elo_rating = 1540, updated_at = 0\<rparr>,
               \<lparr>team_id = 2, api_team_id = Some 61, name = ''Chelsea'',
                 current_elo_rating = 1480, updated_at = 0\<rparr>],
      matches = [\<lparr>match_id = 7, api_match_id = None, home_team_id = 2, away_team_id = 1,
                   date = 19950, home_goals = 1, away_goals = 1, result = 0\<rparr>],
      last_fetched_date = None, lookup_index = True\<rparr>" 7
     "\<lparr>match_id = 7, api_match_id = None, home_team_id = 2, away_team_id = 1,
                   date = 19950, home_goals = 1, away_goals = 1, result = 0\<rparr>"
     1480 1540 86400]
  by (auto simp: match_by_id_def rating_of_def team_by_id_def)

section \<open>The feature computer\<close>

lemmas features_defs =
  get_match_features2_def get_match_features_def team_by_api_def team_by_id_def
  elo_rows_def elo_or_default_def date_of_def last_5_def h2h_rows2_def h2h_rows_def
  home_rows2_def away_rows2_def home_rows_def away_rows_def before_def draws_def
  draw_tendency_def avg_home_gd_def avg_away_gd_def sql_avg_def or_0_def
  order_by_date_desc_def order_by_date_asc_def index_order_def

lemma filter_team_id_distinct:
  "distinct (map team_id ts) \<Longrightarrow> t \<in> set ts \<Longrightarrow>
     filter (\<lambda>u. team_id u = team_id t) ts = [t]"
proof (induction ts)
  case Nil
  then show ?case by simp
next
  case (Cons u ts)
  show ?case
  proof (cases "u = t")
    case True
    have "team_id t \<notin> team_id ` set ts"
      using Cons.prems(1) True by simp
    then have "\<And>x. x \<in> set ts \<Longrightarrow> team_id x \<noteq> team_id t"
      by (metis imageI)
    then have "filter (\<lambda>u. team_id u = team_id t) ts = []"
      by (simp add: filter_empty_conv)
    then show ?thesis using True by simp
  next
    case False
    then have "t \<in> set ts" using Cons.prems(2) by simp
    moreover have "team_id u \<noteq> team_id t" using Cons.prems(1) \<open>t \<in> set ts\<close> by auto
    ultimately show ?thesis using Cons by simp
  qed
qed

lemma team_by_api_in_set: "team_by_api ts api = Some t \<Longrightarrow> t \<in> set ts"
  by (auto simp: team_by_api_def find_Some_iff)

lemma elo_rows_raises:
  assumes "distinct (map team_id ts)" and "t \<in> set ts"
    and "case match_date of None \<Rightarrow> True | Some d \<Rightarrow> date_of (updated_at t) < d"
  shows "elo_or_default (elo_rows ts (team_id t) match_date) = Inl TypeError"
proof -
  let ?P = "\<lambda>u. case match_date of None \<Rightarrow> True | Some d \<Rightarrow> date_of (updated_at u) < d"
  have "filter (\<lambda>u. team_id u = team_id t \<and> ?P u) ts =
          filter ?P (filter (\<lambda>u. team_id u = team_id t) ts)"
    by (simp add: conj_commute)
  also have "\<dots> = [t]"
    using assms by (simp add: filter_team_id_distinct)
  finally show ?thesis by (simp add: elo_rows_def elo_or_default_def)
qed

text \<open>
  Claim C6 (the code departs from it).  The claim has a feature computation with
  both competitors resolved succeed, with or without a cutoff.  In a table whose
  \<^verbatim>\<open>team_id\<close> is a key, \<^verbatim>\<open>get_match_features2\<close> without a cutoff raises \<^verbatim>\<open>TypeError\<close>
  whenever both competitors resolve: each rating query has one row, the condition of
  the conditional expression takes it, and the other \<^verbatim>\<open>fetchone()\<close> is \<^verbatim>\<open>None\<close>.  With
  a cutoff it raises in the same way when the home team was last updated on a day
  before the cutoff.  \<^verbatim>\<open>get_match_features\<close> returns a vector on the same input.
\<close>

theorem get_match_features2_raises:
  assumes "distinct (map team_id (teams db))"
    and "team_by_api (teams db) home_team_api_id = Some hr"
    and "team_by_api (teams db) away_team_api_id \<noteq> None"
  shows "get_match_features2 db home_team_api_id away_team_api_id None = Inl TypeError \<and>
         (\<forall>d. date_of (updated_at hr) < d \<longrightarrow>
            get_match_features2 db home_team_api_id away_team_api_id (Some d) = Inl TypeError) \<and>
         get_match_features db home_team_api_id away_team_api_id \<noteq> None"
proof -
  note hr = assms(2)
  from assms(3) obtain ar where
    ar: "team_by_api (teams db) away_team_api_id = Some ar"
    by auto
  have hs: "hr \<in> set (teams db)" "ar \<in> set (teams db)"
    using hr ar by (auto dest: team_by_api_in_set)
  have h: "elo_or_default (elo_rows (teams db) (team_id hr) None) = Inl TypeError"
    using assms(1) hs(1) by (rule elo_rows_raises) simp
  have f2: "get_match_features2 db home_team_api_id away_team_api_id None = Inl TypeError"
    by (simp add: get_match_features2_def hr ar h)
  have f2d: "get_match_features2 db home_team_api_id away_team_api_id (Some d) = Inl TypeError"
    if "date_of (updated_at hr) < d" for d
  proof -
    have "elo_or_default (elo_rows (teams db) (team_id hr) (Some d)) = Inl TypeError"
      using assms(1) hs(1) by (rule elo_rows_raises) (simp add: that)
    then show ?thesis by (simp add: get_match_features2_def hr ar)
  qed
  have "team_by_id (teams db) (team_id hr) \<noteq> None" "team_by_id (teams db) (team_id ar) \<noteq> None"
    using hs by (auto simp: team_by_id_def find_None_iff)
  then have "get_match_features db home_team_api_id away_team_api_id \<noteq> None"
    by (auto simp: get_match_features_def hr ar Let_def)
  with f2 f2d show ?thesis by simp
qed

theorem get_match_features2_raises_witness:
  "get_match_features2
     \<lparr>teams = [\<lparr>team_id = 1, api_team_id = Some 57, name = ''Arsenal'',
                 current_elo_rating = 1540, updated_at = 0\<rparr>,
               \<lparr>team_id = 2, api_team_id = Some 61, name = ''Chelsea'',
                 current_elo_rating = 1480, updated_at = 0\<rparr>],
      matches = [], last_fetched_date = None, lookup_index = True\<rparr> 57 61 None = Inl TypeError \<and>
   get_match_features2
     \<lparr>teams = [\<lparr>team_id = 1, api_team_id = Some 57, name = ''Arsenal'',
                 current_elo_rating = 1540, updated_at = 0\<rparr>,
               \<lparr>team_id = 2, api_team_id = Some 61, name = ''Chelsea'',
                 current_elo_rating = 1480, updated_at = 0\<rparr>],
      matches = [], last_fetched_date = None, lookup_index = True\<rparr> 57 61 (Some 19980) = Inl TypeError \<and>
   get_match_features
     \<lparr>teams = [\<lparr>team_id = 1, api_team_id = Some 57, name = ''Arsenal'',
                 current_elo_rating = 1540, updated_at = 0\<rparr>,
               \<lparr>team_id = 2, api_team_id = Some 61, name = ''Chelsea'',
                 current_elo_rating = 1480, updated_at = 0\<rparr>],
      matches = [], last_fetched_date = None, lookup_index = True\<rparr> 57 61 \<noteq> None"
  using get_match_features2_raises [where db =
     "\<lparr>teams = [\<lparr>team_id = 1, api_team_id = Some 57, name = ''Arsenal'',
                 current_elo_rating = 1540, updated_at = 0\<rparr>,
               \<lparr>team_id = 2, api_team_id = Some 61, name = ''Chelsea'',
                 current_elo_rating = 1480, updated_at = 0\<rparr>],
      matches = [], last_fetched_date = None, lookup_index = True\<rparr>" and home_team_api_id = 57
     and away_team_api_id = 61 and hr =
     "\<lparr>team_id = 1, api_team_id = Some 57, name = ''Arsenal'',
                 current_elo_rating = 1540, updated_at = 0\<rparr>"]
  by (simp add: team_by_api_def date_of_def)

text \<open>The queries for one side put the cutoff on their single condition: what they
  compute is the same on two stores with the same events before the cutoff.\<close>

lemma side_rows2_cutoff:
  "home_rows2 ms h (Some d) = filter (\<lambda>m. home_team_id m = h) (filter (\<lambda>m. date m < d) ms)"
  "away_rows2 ms a (Some d) = filter (\<lambda>m. away_team_id m = a) (filter (\<lambda>m. date m < d) ms)"
  by (auto simp: home_rows2_def away_rows2_def before_def intro: filter_cong)

lemma get_match_features2_cutoff_sides:
  assumes "teams db1 = teams db2" and "lookup_index db1 = lookup_index db2"
    and "filter (\<lambda>m. date m < d) (matches db1) = filter (\<lambda>m. date m < d) (matches db2)"
    and "get_match_features2 db1 home_team_api_id away_team_api_id (Some d) = Inr (Some f1)"
    and "get_match_features2 db2 home_team_api_id away_team_api_id (Some d) = Inr (Some f2)"
  shows "Draw_Tendency_Home f1 = Draw_Tendency_Home f2 \<and>
         Draw_Tendency_Away f1 = Draw_Tendency_Away f2 \<and>
         Avg_Home_GD_Last_5 f1 = Avg_Home_GD_Last_5 f2 \<and>
         Avg_Away_GD_Last_5 f1 = Avg_Away_GD_Last_5 f2 \<and>
         Home_Elo f1 = Home_Elo f2 \<and> Away_Elo f1 = Away_Elo f2"
  using assms(4,5)
  by (auto simp: get_match_features2_def Let_def side_rows2_cutoff assms(1,3) last_5_def
             order_by_date_desc_def assms(2)
           split: option.splits sum.splits)

text \<open>
  Claim C4 (the code departs from it).  The claim has no event dated at or after the
  cutoff contribute to an aggregate.  Two stores with the same teams and the same
  events before day 19980 (none), one of them with a draw of the home side against
  the away side on day 19990: with the cutoff 19980, \<^verbatim>\<open>get_match_features2\<close> counts
  that draw in \<^verbatim>\<open>H2H_Draws_Last_5\<close>.
\<close>

theorem get_match_features2_leaks_h2h:
  "\<exists>f1 f2.
     get_match_features2
       \<lparr>teams = [\<lparr>team_id = 1, api_team_id = Some 57, name = ''Arsenal'',
                   current_elo_rating = 1540, updated_at = 1728000000\<rparr>,
                 \<lparr>team_id = 2, api_team_id = Some 61, name = ''Chelsea'',
                   current_elo_rating = 1480, updated_at = 1728000000\<rparr>],
        matches = [], last_fetched_date = None, lookup_index = True\<rparr> 57 61 (Some 19980) = Inr (Some f1) \<and>
     get_match_features2
       \<lparr>teams = [\<lparr>team_id = 1, api_team_id = Some 57, name = ''Arsenal'',
                   current_elo_rating = 1540, updated_at = 1728000000\<rparr>,
                 \<lparr>team_id = 2, api_team_id = Some 61, name = ''Chelsea'',
                   current_elo_rating = 1480, updated_at = 1728000000\<rparr>],
        matches = [\<lparr>match_id = 1, api_match_id = Some 1001, home_team_id = 1,
                    away_team_id = 2, date = 19990, home_goals = 1, away_goals = 1,
                    result = 0\<rparr>],
        last_fetched_date = None, lookup_index = True\<rparr> 57 61 (Some 19980) = Inr (Some f2) \<and>
     H2H_Draws_Last_5 f1 = 0 \<and> H2H_Draws_Last_5 f2 = 1"
  by (simp add: features_defs)

section \<open>Ingestion\<close>

subsection \<open>Resolving a team\<close>

lemma team_by_api_team_id_in:
  "team_by_api ts api = Some t \<Longrightarrow> team_by_id ts (team_id t) \<noteq> None"
  by (auto simp: team_by_id_def find_None_iff dest: team_by_api_in_set)

lemma team_by_name_in_set: "team_by_name ts nm = Some t \<Longrightarrow> t \<in> set ts"
  by (auto simp: team_by_name_def find_Some_iff)

lemma team_by_api_append:
  "team_by_api (ts @ us) api =
     (case team_by_api ts api of Some t \<Rightarrow> Some t | None \<Rightarrow> team_by_api us api)"
  by (induction ts) (auto simp: team_by_api_def)

text \<open>Writing an API id to the rows of one team id makes that API id resolve to it,
  when no row had the API id before.\<close>

lemma team_by_api_set_api_new:
  "team_by_api ts api = None \<Longrightarrow> t \<in> set ts \<Longrightarrow>
     \<exists>u. team_by_api (set_api_team_id ts (team_id t) api) api = Some u \<and> team_id u = team_id t"
proof (induction ts)
  case Nil
  then show ?case by simp
next
  case (Cons x ts)
  then have n: "api_team_id x \<noteq> Some api" "team_by_api ts api = None"
    by (auto simp: team_by_api_def split: if_splits)
  show ?case
  proof (cases "team_id x = team_id t")
    case True
    then show ?thesis by (simp add: team_by_api_def set_api_team_id_def)
  next
    case False
    then have "t \<in> set ts" using Cons.prems(2) by auto
    from Cons.IH [OF n(2) this] show ?thesis
      using False n(1) by (simp add: team_by_api_def set_api_team_id_def)
  qed
qed

text \<open>Writing another API id to the rows of another team leaves a lookup as it was.\<close>

lemma team_by_api_set_api_other:
  "team_by_api ts x = Some t \<Longrightarrow> team_id t \<noteq> i \<Longrightarrow> x \<noteq> y \<Longrightarrow>
     team_by_api (set_api_team_id ts i y) x = Some t"
proof (induction ts)
  case Nil
  then show ?case by (simp add: team_by_api_def)
next
  case (Cons u ts)
  show ?case
  proof (cases "api_team_id u = Some x")
    case True
    then have "u = t" using Cons.prems(1) by (simp add: team_by_api_def)
    then show ?thesis using True Cons.prems(2) by (simp add: team_by_api_def set_api_team_id_def)
  next
    case False
    then have "team_by_api ts x = Some t" using Cons.prems(1) by (simp add: team_by_api_def)
    from Cons.IH [OF this Cons.prems(2,3)] show ?thesis
      using False Cons.prems(3) by (simp add: team_by_api_def set_api_team_id_def)
  qed
qed

lemma resolve_team_resolves:
  assumes "resolve_team ts now api nm = (ts', i)"
  shows "\<exists>t. team_by_api ts' api = Some t \<and> team_id t = i"
proof (cases "team_by_api ts api")
  case (Some t)
  then show ?thesis using assms by (auto simp: resolve_team_def)
next
  case None
  show ?thesis
  proof (cases "team_by_name ts nm")
    case (Some t)
    then have "t \<in> set ts" by (rule team_by_name_in_set)
    from team_by_api_set_api_new [OF None this] show ?thesis
      using assms None Some by (auto simp: resolve_team_def)
  next
    case n: None
    let ?new = "\<lparr>team_id = next_id (map team_id ts), api_team_id = Some api, name = nm,
                  current_elo_rating = 1500, updated_at = now\<rparr>"
    have "team_by_api [?new] api = Some ?new" by (simp add: team_by_api_def)
    then have "team_by_api (ts @ [?new]) api = Some ?new"
      using None by (simp add: team_by_api_append)
    moreover have "ts' = ts @ [?new]" "i = next_id (map team_id ts)"
      using assms None n by (auto simp: resolve_team_def Let_def)
    ultimately show ?thesis by simp
  qed
qed

lemma resolve_team_found:
  "team_by_api ts api = Some t \<Longrightarrow> resolve_team ts now api nm = (ts, team_id t)"
  by (simp add: resolve_team_def)

text \<open>Resolving the away side keeps what the home API id resolves to, when the two
  sides are different teams.\<close>

lemma resolve_team_keeps:
  assumes "team_by_api ts x = Some t"
    and "resolve_team ts now y nm = (ts', i)"
    and "team_id t \<noteq> i"
  shows "team_by_api ts' x = Some t"
proof (cases "team_by_api ts y")
  case (Some u)
  then show ?thesis using assms by (auto simp: resolve_team_def)
next
  case None
  then have xy: "x \<noteq> y" using assms(1) by auto
  show ?thesis
  proof (cases "team_by_name ts nm")
    case (Some u)
    then show ?thesis
      using assms None xy by (auto simp: resolve_team_def team_by_api_set_api_other)
  next
    case n: None
    show ?thesis
      using assms None n by (auto simp: resolve_team_def Let_def team_by_api_append)
  qed
qed

subsection \<open>Ratings do not matter to a lookup\<close>

lemma team_by_api_set_elo:
  "team_by_api (set_elo ts now tid r) x =
     map_option (\<lambda>t. if team_id t = tid then t\<lparr>current_elo_rating := r, updated_at := now\<rparr> else t)
       (team_by_api ts x)"
  by (induction ts) (auto simp: team_by_api_def set_elo_def)

lemma team_by_api_id_set_elo:
  "map_option team_id (team_by_api (set_elo ts now tid r) x) = map_option team_id (team_by_api ts x)"
  by (cases "team_by_api ts x") (auto simp: team_by_api_set_elo)

subsection \<open>\<^verbatim>\<open>add_new_match\<close> a second time\<close>

lemma resolve_teams_found:
  assumes "team_by_api ts (md_home_team_id md) = Some t" 
    and "team_by_api ts (md_away_team_id md) = Some u"
  shows "resolve_teams ts now md = (ts, team_id t, team_id u)"
  by (simp add: resolve_teams_def resolve_team_found [OF assms(1)] resolve_team_found [OF assms(2)])

lemma resolve_teams_resolves:
  assumes "resolve_teams ts now md = (ts2, h, a)" and "h \<noteq> a"
  shows "\<exists>t u. team_by_api ts2 (md_home_team_id md) = Some t \<and> team_id t = h \<and>
               team_by_api ts2 (md_away_team_id md) = Some u \<and> team_id u = a"
proof -
  obtain ts1 where
    r1: "resolve_team ts now (md_home_team_id md) (home_team_name md) = (ts1, h)" and
    r2: "resolve_team ts1 now (md_away_team_id md) (away_team_name md) = (ts2, a)"
    using assms(1) by (auto simp: resolve_teams_def split: prod.splits)
  from resolve_team_resolves [OF r1] obtain t where
    t: "team_by_api ts1 (md_home_team_id md) = Some t" "team_id t = h" by blast
  from resolve_team_resolves [OF r2] obtain u where
    u: "team_by_api ts2 (md_away_team_id md) = Some u" "team_id u = a" by blast
  have "team_by_api ts2 (md_home_team_id md) = Some t"
    by (rule resolve_team_keeps [OF t(1) r2]) (simp add: t(2) assms(2))
  with t u show ?thesis by blast
qed

lemma existing_match_row:
  "r \<in> set ms \<Longrightarrow> same_fixture d h a r \<Longrightarrow> joined ts r \<Longrightarrow>
     existing_match ts ms api d h a \<noteq> None"
  by (cases api) (auto simp: existing_match_def find_None_iff)

text \<open>A database on which \<^verbatim>\<open>add_new_match\<close> with \<open>md\<close> changes nothing and returns
  \<^verbatim>\<open>None\<close>: both API ids resolve, and the fixture is found or cannot be inserted.\<close>

lemma add_new_match_skips:
  assumes "team_by_api (teams db) (md_home_team_id md) = Some t"
    and "team_by_api (teams db) (md_away_team_id md) = Some u"
    and "existing_match (teams db) (matches db) (md_match_id md) (md_date md)
           (team_id t) (team_id u) \<noteq> None \<or>
         integrity_error (matches db) (new_row (matches db) md (team_id t) (team_id u))"
  shows "add_new_match db now md = (db, None)"
  using assms(3)
  by (auto simp: add_new_match_def resolve_teams_found [OF assms(1,2)] Let_def
           split: option.splits)

lemma joined_set_elo: "joined (set_elo ts now tid r) m = joined ts m"
  by (simp add: joined_def team_by_id_set_elo_None)

lemma existing_match_set_elo:
  "existing_match (set_elo ts now tid r) ms api d h a = existing_match ts ms api d h a"
  by (cases api) (simp_all add: existing_match_def joined_set_elo)

lemma apply_match_teams:
  "apply_match db now m = Inr db' \<Longrightarrow>
     \<exists>r1 r2. db' = db\<lparr>teams := set_elo (set_elo (teams db) now (home_team_id m) r1) now
                                  (away_team_id m) r2\<rparr>"
  by (auto simp: apply_match_def Let_def split: option.splits)

lemma update_elo_ratings_teams:
  "update_elo_ratings db now mid = Inr db' \<Longrightarrow>
     \<exists>i1 r1 i2 r2. db' = db\<lparr>teams := set_elo (set_elo (teams db) now i1 r1) now i2 r2\<rparr>"
  by (auto simp: update_elo_ratings_def split: option.splits dest!: apply_match_teams)

lemma team_by_api_set_elo_Some:
  "team_by_api ts x = Some t \<Longrightarrow>
     \<exists>t'. team_by_api (set_elo ts now tid r) x = Some t' \<and> team_id t' = team_id t"
  by (auto simp: team_by_api_set_elo)

text \<open>What holds of the database after \<^verbatim>\<open>add_new_match\<close> and the rating update that
  follows it.\<close>

lemma add_and_update_settled:
  assumes "resolve_teams (teams db) now md = (ts2, h, a)" and "h \<noteq> a"
    and "add_and_update db now md = (db1, added)"
  shows "\<exists>t u. team_by_api (teams db1) (md_home_team_id md) = Some t \<and>
               team_by_api (teams db1) (md_away_team_id md) = Some u \<and>
               (existing_match (teams db1) (matches db1) (md_match_id md) (md_date md)
                  (team_id t) (team_id u) \<noteq> None \<or>
                integrity_error (matches db1) (new_row (matches db1) md (team_id t) (team_id u)))"
proof -
  from resolve_teams_resolves [OF assms(1,2)] obtain t u where
    t: "team_by_api ts2 (md_home_team_id md) = Some t" "team_id t = h" and
    u: "team_by_api ts2 (md_away_team_id md) = Some u" "team_id u = a"
    by blast
  let ?ex = "existing_match ts2 (matches db) (md_match_id md) (md_date md) h a"
  let ?row = "new_row (matches db) md h a"
  show ?thesis
  proof (cases "?ex \<noteq> None \<or> integrity_error (matches db) ?row")
    case True
    then have "add_new_match db now md = (db\<lparr>teams := ts2\<rparr>, None)"
      by (auto simp: add_new_match_def assms(1) Let_def split: option.splits)
    then have "db1 = db\<lparr>teams := ts2\<rparr>"
      using assms(3) by (simp add: add_and_update_def)
    then show ?thesis using t u True by (intro exI [of _ t] exI [of _ u]) simp
  next
    case False
    let ?ms = "matches db @ [?row]"
    let ?db' = "db\<lparr>teams := ts2, matches := ?ms\<rparr>"
    have add: "add_new_match db now md = (?db', Some (match_id ?row))"
      using False by (auto simp: add_new_match_def assms(1) Let_def split: option.splits)
    have j: "joined ts2 ?row"
      using t u team_by_api_team_id_in [OF t(1)] team_by_api_team_id_in [OF u(1)]
      by (simp add: joined_def new_row_def)
    have sf: "same_fixture (md_date md) h a ?row"
      by (simp add: same_fixture_def new_row_def)
    have ex: "existing_match ts2 ?ms (md_match_id md) (md_date md) h a \<noteq> None"
      by (rule existing_match_row [OF _ sf j]) simp
    show ?thesis
    proof (cases "update_elo_ratings ?db' now (match_id ?row)")
      case (Inl e)
      then have "db1 = ?db'" using assms(3) add by (simp add: add_and_update_def)
      then show ?thesis using t u ex by (intro exI [of _ t] exI [of _ u]) simp
    next
      case (Inr db2)
      then have d: "db1 = db2" using assms(3) add by (simp add: add_and_update_def)
      from update_elo_ratings_teams [OF Inr] obtain i1 r1 i2 r2 where
        db2: "db2 = ?db'\<lparr>teams := set_elo (set_elo ts2 now i1 r1) now i2 r2\<rparr>"
        by auto
      from team_by_api_set_elo_Some [OF t(1), of now i1 r1] obtain t1 where
        t1: "team_by_api (set_elo ts2 now i1 r1) (md_home_team_id md) = Some t1"
            "team_id t1 = h" using t(2) by auto
      from team_by_api_set_elo_Some [OF t1(1), of now i2 r2] obtain t2 where
        t2: "team_by_api (set_elo (set_elo ts2 now i1 r1) now i2 r2) (md_home_team_id md) = Some t2"
            "team_id t2 = h" using t1(2) by auto
      from team_by_api_set_elo_Some [OF u(1), of now i1 r1] obtain u1 where
        u1: "team_by_api (set_elo ts2 now i1 r1) (md_away_team_id md) = Some u1"
            "team_id u1 = a" using u(2) by auto
      from team_by_api_set_elo_Some [OF u1(1), of now i2 r2] obtain u2 where
        u2: "team_by_api (set_elo (set_elo ts2 now i1 r1) now i2 r2) (md_away_team_id md) = Some u2"
            "team_id u2 = a" using u1(2) by auto
      show ?thesis
        using t2 u2 ex
        by (intro exI [of _ t2] exI [of _ u2]) (simp add: d db2 existing_match_set_elo)
    qed
  qed
qed

lemma add_and_update_again:
  assumes "resolve_teams (teams db) now md = (ts2, h, a)" and "h \<noteq> a"
    and "add_and_update db now md = (db1, added)"
  shows "add_new_match db1 now' md = (db1, None)"
proof -
  from add_and_update_settled [OF assms] obtain t u where
    "team_by_api (teams db1) (md_home_team_id md) = Some t"
    "team_by_api (teams db1) (md_away_team_id md) = Some u"
    "existing_match (teams db1) (matches db1) (md_match_id md) (md_date md)
                  (team_id t) (team_id u) \<noteq> None \<or>
                integrity_error (matches db1) (new_row (matches db1) md (team_id t) (team_id u))"
    by blast
  then show ?thesis by (rule add_new_match_skips)
qed

subsection \<open>One row for a fixture\<close>

lemma team_by_id_set_api_None:
  "team_by_id (set_api_team_id ts i api) x = None \<longleftrightarrow> team_by_id ts x = None"
  by (induction ts) (auto simp: team_by_id_def set_api_team_id_def)

lemma team_by_id_append_None:
  "team_by_id (ts @ us) x = None \<longleftrightarrow> team_by_id ts x = None \<and> team_by_id us x = None"
  by (auto simp: team_by_id_def find_None_iff)

lemma resolve_team_keeps_ids:
  assumes "resolve_team ts now api nm = (ts', i)" and "team_by_id ts x \<noteq> None"
  shows "team_by_id ts' x \<noteq> None"
proof (cases "team_by_api ts api")
  case (Some t)
  then show ?thesis using assms by (simp add: resolve_team_def)
next
  case None
  show ?thesis
  proof (cases "team_by_name ts nm")
    case (Some t)
    then have "ts' = set_api_team_id ts (team_id t) api"
      using assms(1) None by (auto simp: resolve_team_def)
    then show ?thesis using assms(2) by (simp add: team_by_id_set_api_None)
  next
    case n: None
    then have "\<exists>new. ts' = ts @ [new]"
      using assms(1) None by (auto simp: resolve_team_def Let_def)
    then show ?thesis using assms(2) by (metis team_by_id_append_None)
  qed
qed

lemma resolve_teams_joined:
  assumes "resolve_teams ts now md = (ts2, h, a)"
  shows "team_by_id ts2 h \<noteq> None \<and> team_by_id ts2 a \<noteq> None"
proof -
  obtain ts1 where
    r1: "resolve_team ts now (md_home_team_id md) (home_team_name md) = (ts1, h)" and
    r2: "resolve_team ts1 now (md_away_team_id md) (away_team_name md) = (ts2, a)"
    using assms by (auto simp: resolve_teams_def split: prod.splits)
  from resolve_team_resolves [OF r1] have "team_by_id ts1 h \<noteq> None"
    by (auto dest: team_by_api_team_id_in)
  then have "team_by_id ts2 h \<noteq> None" by (rule resolve_team_keeps_ids [OF r2])
  moreover from resolve_team_resolves [OF r2] have "team_by_id ts2 a \<noteq> None"
    by (auto dest: team_by_api_team_id_in)
  ultimately show ?thesis by simp
qed

lemma existing_match_None:
  assumes "existing_match ts ms api d h a = None"
    and "team_by_id ts h \<noteq> None" and "team_by_id ts a \<noteq> None"
  shows "(d, h, a) \<notin> fixture ` set ms"
proof
  assume "(d, h, a) \<in> fixture ` set ms"
  then obtain m where m: "m \<in> set ms" "same_fixture d h a m"
    by (auto simp: fixture_def same_fixture_def)
  then have "joined ts m" using assms(2,3) by (simp add: joined_def same_fixture_def)
  from existing_match_row [OF m(1,2) this, of api] show False using assms(1) by simp
qed

lemma existing_match_fixture:
  assumes "m \<in> set ms" and "same_fixture d h a m"
    and "team_by_id ts h \<noteq> None" and "team_by_id ts a \<noteq> None"
  shows "existing_match ts ms api d h a \<noteq> None"
proof -
  have "joined ts m" using assms(2-4) by (simp add: joined_def same_fixture_def)
  from existing_match_row [OF assms(1,2) this] show ?thesis .
qed

lemma add_new_match_fixtures:
  assumes "distinct (map fixture (matches db))"
  shows "distinct (map fixture (matches (fst (add_new_match db now md))))"
proof -
  obtain ts2 h a where r: "resolve_teams (teams db) now md = (ts2, h, a)"
    by (metis prod_cases3)
  note j = resolve_teams_joined [OF r]
  show ?thesis
  proof (cases "existing_match ts2 (matches db) (md_match_id md) (md_date md) h a")
    case (Some m)
    then show ?thesis using assms by (simp add: add_new_match_def r)
  next
    case None
    from existing_match_None [OF None] j
    have "(md_date md, h, a) \<notin> fixture ` set (matches db)" by simp
    then have "fixture (new_row (matches db) md h a) \<notin> fixture ` set (matches db)"
      by (simp add: fixture_def new_row_def)
    then show ?thesis using assms None by (simp add: add_new_match_def r Let_def)
  qed
qed

lemma add_new_match_duplicate:
  assumes "resolve_teams (teams db) now md = (ts2, h, a)"
    and "m \<in> set (matches db)" and "same_fixture (md_date md) h a m"
  shows "add_new_match db now md = (db\<lparr>teams := ts2\<rparr>, None)"
proof -
  note j = resolve_teams_joined [OF assms(1)]
  have "existing_match ts2 (matches db) (md_match_id md) (md_date md) h a \<noteq> None"
    using assms(2,3) j by (intro existing_match_fixture [of m]) simp_all
  then show ?thesis by (auto simp: add_new_match_def assms(1))
qed

lemma fold_add_new_match_fixtures:
  "distinct (map fixture (matches db)) \<Longrightarrow>
     distinct (map fixture (matches
       (fold (\<lambda>(now, md) d. fst (add_new_match d now md)) calls db)))"
  by (induction calls arbitrary: db) (auto simp: add_new_match_fixtures)

text \<open>
  Claim C10.  After any sequence of calls of \<^verbatim>\<open>add_new_match\<close> on a store with at most
  one row for a (date, home team, away team), there is still at most one row for
  each; and a record whose date and resolved teams are those of a stored row is
  skipped (\<^verbatim>\<open>None\<close> is returned and \<^verbatim>\<open>matches\<close> is as before), whatever its
  \<^verbatim>\<open>match_id\<close> and the \<^verbatim>\<open>api_match_id\<close> of the stored row are.
\<close>

theorem add_new_match_one_per_fixture:
  assumes "distinct (map fixture (matches db))"
  shows "distinct (map fixture (matches
           (fold (\<lambda>(now, md) d. fst (add_new_match d now md)) calls db))) \<and>
         (\<forall>now md ts2 h a m.
            resolve_teams (teams db) now md = (ts2, h, a) \<longrightarrow>
            m \<in> set (matches db) \<longrightarrow> date m = md_date md \<longrightarrow>
            home_team_id m = h \<longrightarrow> away_team_id m = a \<longrightarrow>
            snd (add_new_match db now md) = None \<and>
            matches (fst (add_new_match db now md)) = matches db)"
proof -
  have "snd (add_new_match db now md) = None \<and>
        matches (fst (add_new_match db now md)) = matches db"
    if "resolve_teams (teams db) now md = (ts2, h, a)" "m \<in> set (matches db)"
       "date m = md_date md" "home_team_id m = h" "away_team_id m = a"
    for now md ts2 h a m
  proof -
    have "same_fixture (md_date md) h a m" using that(3-5) by (simp add: same_fixture_def)
    from add_new_match_duplicate [OF that(1,2) this] show ?thesis by simp
  qed
  with fold_add_new_match_fixtures [OF assms] show ?thesis by blast
qed

lemmas ingest_defs =
  add_new_match_def resolve_teams_def resolve_team_def team_by_api_def team_by_name_def
  home_team_name_def away_team_name_def next_id_def existing_match_def same_fixture_def
  joined_def team_by_id_def integrity_error_def new_row_def set_api_team_id_def
  fixture_def add_and_update_def update_elo_ratings_def match_by_id_def apply_match_def
  set_elo_def store_match_def

theorem add_new_match_one_per_fixture_witness:
  "distinct (map fixture (matches
     (fold (\<lambda>(now, md) d. fst (add_new_match d now md))
        [(1726300000,
          \<lparr>md_match_id = Some 1001, md_home_team_id = 57, md_away_team_id = 61,
           md_home_team_name = Some ''Arsenal'', md_away_team_name = Some ''Chelsea'',
           md_date = 19980, md_home_goals = 2, md_away_goals = 0, md_result = - 1\<rparr>),
         (1726400000,
          \<lparr>md_match_id = Some 2002, md_home_team_id = 57, md_away_team_id = 61,
           md_home_team_name = Some ''Arsenal'', md_away_team_name = Some ''Chelsea'',
           md_date = 19980, md_home_goals = 2, md_away_goals = 0, md_result = - 1\<rparr>)]
        \<lparr>teams = [], matches = [], last_fetched_date = None, lookup_index = True\<rparr>))) \<and>
   length (matches
     (fold (\<lambda>(now, md) d. fst (add_new_match d now md))
        [(1726300000,
          \<lparr>md_match_id = Some 1001, md_home_team_id = 57, md_away_team_id = 61,
           md_home_team_name = Some ''Arsenal'', md_away_team_name = Some ''Chelsea'',
           md_date = 19980, md_home_goals = 2, md_away_goals = 0, md_result = - 1\<rparr>),
         (1726400000,
          \<lparr>md_match_id = Some 2002, md_home_team_id = 57, md_away_team_id = 61,
           md_home_team_name = Some ''Arsenal'', md_away_team_name = Some ''Chelsea'',
           md_date = 19980, md_home_goals = 2, md_away_goals = 0, md_result = - 1\<rparr>)]
        \<lparr>teams = [], matches = [], last_fetched_date = None, lookup_index = True\<rparr>)) = 1"
  using add_new_match_one_per_fixture [of
      "\<lparr>teams = [], matches = [], last_fetched_date = None, lookup_index = True\<rparr>"
      "[(1726300000,
          \<lparr>md_match_id = Some 1001, md_home_team_id = 57, md_away_team_id = 61,
           md_home_team_name = Some ''Arsenal'', md_away_team_name = Some ''Chelsea'',
           md_date = 19980, md_home_goals = 2, md_away_goals = 0, md_result = - 1\<rparr>),
         (1726400000,
          \<lparr>md_match_id = Some 2002, md_home_team_id = 57, md_away_team_id = 61,
           md_home_team_name = Some ''Arsenal'', md_away_team_name = Some ''Chelsea'',
           md_date = 19980, md_home_goals = 2, md_away_goals = 0, md_result = - 1\<rparr>)]"]
  by (simp add: ingest_defs)

subsection \<open>\<^verbatim>\<open>process_new_matches\<close>\<close>

lemma process_match_unchanged: "process_match db now m = (db, False)"
  by (simp add: process_match_def get_match_features_match_date_def)

lemma process_matches_loop_unchanged: "process_matches_loop db now ms = (db, 0)"
  by (induction ms) (simp_all add: process_match_unchanged)

text \<open>
  Claim C1, as stated, fails.  The two sides of a record can resolve to one team: the
  home API id is the one of a stored team, and the away API id is unknown while the
  away name is the name of that same team, whose API id is then overwritten.  The
  first call stores one row.  The second call resolves the home side to a new team,
  finds no row of that date and pair, and stores the record again: it returns the id
  of a second row, and \<^verbatim>\<open>matches\<close> has two rows, for a record without \<^verbatim>\<open>match_id\<close>
  given twice.
\<close>

theorem add_new_match_stores_twice:
  "length (matches (fst (add_and_update
        \<lparr>teams = [\<lparr>team_id = 1, api_team_id = Some 10, name = ''X'',
                    current_elo_rating = 1500, updated_at = 0\<rparr>],
         matches = [], last_fetched_date = None, lookup_index = True\<rparr> 1726300000
        \<lparr>md_match_id = None, md_home_team_id = 10, md_away_team_id = 20,
         md_home_team_name = Some ''Y'', md_away_team_name = Some ''X'',
         md_date = 19980, md_home_goals = 1, md_away_goals = 1, md_result = 0\<rparr>))) = 1 \<and>
   snd (add_new_match
     (fst (add_and_update
        \<lparr>teams = [\<lparr>team_id = 1, api_team_id = Some 10, name = ''X'',
                    current_elo_rating = 1500, updated_at = 0\<rparr>],
         matches = [], last_fetched_date = None, lookup_index = True\<rparr> 1726300000
        \<lparr>md_match_id = None, md_home_team_id = 10, md_away_team_id = 20,
         md_home_team_name = Some ''Y'', md_away_team_name = Some ''X'',
         md_date = 19980, md_home_goals = 1, md_away_goals = 1, md_result = 0\<rparr>))
     1726400000
     \<lparr>md_match_id = None, md_home_team_id = 10, md_away_team_id = 20,
      md_home_team_name = Some ''Y'', md_away_team_name = Some ''X'',
      md_date = 19980, md_home_goals = 1, md_away_goals = 1, md_result = 0\<rparr>) = Some 2 \<and>
   length (matches (fst (add_and_update
     (fst (add_and_update
        \<lparr>teams = [\<lparr>team_id = 1, api_team_id = Some 10, name = ''X'',
                    current_elo_rating = 1500, updated_at = 0\<rparr>],
         matches = [], last_fetched_date = None, lookup_index = True\<rparr> 1726300000
        \<lparr>md_match_id = None, md_home_team_id = 10, md_away_team_id = 20,
         md_home_team_name = Some ''Y'', md_away_team_name = Some ''X'',
         md_date = 19980, md_home_goals = 1, md_away_goals = 1, md_result = 0\<rparr>))
     1726400000
     \<lparr>md_match_id = None, md_home_team_id = 10, md_away_team_id = 20,
      md_home_team_name = Some ''Y'', md_away_team_name = Some ''X'',
      md_date = 19980, md_home_goals = 1, md_away_goals = 1, md_result = 0\<rparr>))) = 2"
  by (simp add: ingest_defs Let_def)

text \<open>
  Claim C1, amended.  Ingestion is idempotent for a record whose two sides resolve to
  two different teams.  After the storage step of the ingestion (\<^verbatim>\<open>add_new_match\<close>,
  then \<^verbatim>\<open>update_elo_ratings\<close> on a new row) has run on a record, with or without
  \<^verbatim>\<open>match_id\<close>, a second run on the same record, at any later time, returns \<^verbatim>\<open>None\<close>
  without an error and leaves the whole database as the first run left it: the rows
  of \<^verbatim>\<open>matches\<close> and the ratings of both teams are the same.
\<close>

theorem ingest_idempotent:
  assumes "resolve_teams (teams db) now md = (ts2, h, a)"
    and "h \<noteq> a"
    and "add_and_update db now md = (db1, added)"
  shows "add_new_match db1 now' md = (db1, None) \<and>
         add_and_update db1 now' md = (db1, False) \<and>
         matches (fst (add_and_update db1 now' md)) = matches db1 \<and>
         rating_of (fst (add_and_update db1 now' md)) h = rating_of db1 h \<and>
         rating_of (fst (add_and_update db1 now' md)) a = rating_of db1 a"
proof -
  have "add_new_match db1 now' md = (db1, None)"
    by (rule add_and_update_again [OF assms])
  then show ?thesis by (simp add: add_and_update_def)
qed

theorem ingest_idempotent_witness:
  "resolve_teams [] 1726300000
     \<lparr>md_match_id = Some 1001, md_home_team_id = 57, md_away_team_id = 61,
      md_home_team_name = Some ''Arsenal'', md_away_team_name = Some ''Chelsea'',
      md_date = 19980, md_home_goals = 2, md_away_goals = 0, md_result = - 1\<rparr> =
     ([\<lparr>team_id = 1, api_team_id = Some 57, name = ''Arsenal'', current_elo_rating = 1500,
         updated_at = 1726300000\<rparr>,
       \<lparr>team_id = 2, api_team_id = Some 61, name = ''Chelsea'', current_elo_rating = 1500,
         updated_at = 1726300000\<rparr>], 1, 2) \<and>
   snd (add_and_update \<lparr>teams = [], matches = [], last_fetched_date = None, lookup_index = True\<rparr>
     1726300000
     \<lparr>md_match_id = Some 1001, md_home_team_id = 57, md_away_team_id = 61,
      md_home_team_name = Some ''Arsenal'', md_away_team_name = Some ''Chelsea'',
      md_date = 19980, md_home_goals = 2, md_away_goals = 0, md_result = - 1\<rparr>) = True \<and>
   length (matches
     (fst (add_and_update \<lparr>teams = [], matches = [], last_fetched_date = None, lookup_index = True\<rparr>
        1726300000
        \<lparr>md_match_id = Some 1001, md_home_team_id = 57, md_away_team_id = 61,
         md_home_team_name = Some ''Arsenal'', md_away_team_name = Some ''Chelsea'',
         md_date = 19980, md_home_goals = 2, md_away_goals = 0, md_result = - 1\<rparr>))) = 1 \<and>
   add_and_update
     (fst (add_and_update \<lparr>teams = [], matches = [], last_fetched_date = None, lookup_index = True\<rparr>
        1726300000
        \<lparr>md_match_id = Some 1001, md_home_team_id = 57, md_away_team_id = 61,
         md_home_team_name = Some ''Arsenal'', md_away_team_name = Some ''Chelsea'',
         md_date = 19980, md_home_goals = 2, md_away_goals = 0, md_result = - 1\<rparr>))
     1726400000
     \<lparr>md_match_id = Some 1001, md_home_team_id = 57, md_away_team_id = 61,
      md_home_team_name = Some ''Arsenal'', md_away_team_name = Some ''Chelsea'',
      md_date = 19980, md_home_goals = 2, md_away_goals = 0, md_result = - 1\<rparr> =
   (fst (add_and_update \<lparr>teams = [], matches = [], last_fetched_date = None, lookup_index = True\<rparr>
        1726300000
        \<lparr>md_match_id = Some 1001, md_home_team_id = 57, md_away_team_id = 61,
         md_home_team_name = Some ''Arsenal'', md_away_team_name = Some ''Chelsea'',
         md_date = 19980, md_home_goals = 2, md_away_goals = 0, md_result = - 1\<rparr>), False)"
proof -
  let ?db = "\<lparr>teams = [], matches = [], last_fetched_date = None, lookup_index = True\<rparr>"
  let ?md = "\<lparr>md_match_id = Some 1001, md_home_team_id = 57, md_away_team_id = 61,
         md_home_team_name = Some ''Arsenal'', md_away_team_name = Some ''Chelsea'',
         md_date = 19980, md_home_goals = 2, md_away_goals = 0, md_result = - 1\<rparr>"
  have r: "resolve_teams (teams ?db) 1726300000 ?md =
      ([\<lparr>team_id = 1, api_team_id = Some 57, name = ''Arsenal'', current_elo_rating = 1500,
          updated_at = 1726300000\<rparr>,
        \<lparr>team_id = 2, api_team_id = Some 61, name = ''Chelsea'', current_elo_rating = 1500,
          updated_at = 1726300000\<rparr>], 1, 2)"
    by (simp add: ingest_defs)
  have ne: "(1::nat) \<noteq> 2" by simp
  have p: "add_and_update ?db 1726300000 ?md =
      (fst (add_and_update ?db 1726300000 ?md), snd (add_and_update ?db 1726300000 ?md))"
    by simp
  have s: "snd (add_and_update ?db 1726300000 ?md) = True"
    by (simp add: ingest_defs Let_def)
  have n: "length (matches (fst (add_and_update ?db 1726300000 ?md))) = 1"
    by (simp add: ingest_defs Let_def)
  from ingest_idempotent [OF r ne p, where now' = 1726400000]
  have "add_and_update (fst (add_and_update ?db 1726300000 ?md)) 1726400000 ?md =
          (fst (add_and_update ?db 1726300000 ?md), False)"
    by blast
  with r s n show ?thesis by simp
qed

text \<open>
  Claim C2 (the code departs from it).  The claim has a finished, well-formed record
  that is not stored yet inserted, with its rating update.  \<^verbatim>\<open>process_new_matches\<close>
  calls \<^verbatim>\<open>get_match_features\<close> with the keyword \<^verbatim>\<open>match_date\<close>, which that function
  does not have; the \<^verbatim>\<open>TypeError\<close> is caught by the \<^verbatim>\<open>except\<close> of the loop, and the
  record is left out.  So \<^verbatim>\<open>process_new_matches\<close>, when the prediction model loads,
  returns the database as it got it and the count 0, whatever the records are; and
  when the model does not load, it raises before the first record.
\<close>

theorem process_new_matches_adds_nothing:
  "process_new_matches None db now ms = Inr (db, 0) \<and>
   process_new_matches (Some e) db now ms = Inl e"
  by (simp add: process_new_matches_def process_matches_loop_unchanged)

theorem process_new_matches_adds_nothing_witness:
  "process_new_matches None
     \<lparr>teams = [], matches = [], last_fetched_date = None, lookup_index = True\<rparr> 1726300000
     [\<lparr>rm_match_id = 1001, rm_date = Some 19980, rm_home_team_id = 57,
       rm_home_team_name = ''Arsenal'', rm_away_team_id = 61, rm_away_team_name = ''Chelsea'',
       rm_status = ''FINISHED'', rm_home_goals = Some 2, rm_away_goals = Some 0\<rparr>] =
     Inr (\<lparr>teams = [], matches = [], last_fetched_date = None, lookup_index = True\<rparr>, 0) \<and>
   length (matches (fst (store_match
     \<lparr>teams = [], matches = [], last_fetched_date = None, lookup_index = True\<rparr> 1726300000
     \<lparr>rm_match_id = 1001, rm_date = Some 19980, rm_home_team_id = 57,
      rm_home_team_name = ''Arsenal'', rm_away_team_id = 61, rm_away_team_name = ''Chelsea'',
      rm_status = ''FINISHED'', rm_home_goals = Some 2, rm_away_goals = Some 0\<rparr>))) = 1"
  using process_new_matches_adds_nothing [where db =
     "\<lparr>teams = [], matches = [], last_fetched_date = None, lookup_index = True\<rparr>"
     and now = 1726300000 and ms =
     "[\<lparr>rm_match_id = 1001, rm_date = Some 19980, rm_home_team_id = 57,
       rm_home_team_name = ''Arsenal'', rm_away_team_id = 61, rm_away_team_name = ''Chelsea'',
       rm_status = ''FINISHED'', rm_home_goals = Some 2, rm_away_goals = Some 0\<rparr>]"]
  by (simp add: ingest_defs Let_def)

section \<open>The full rebuild\<close>

lemma apply_match_matches: "apply_match db now m = Inr db' \<Longrightarrow> matches db' = matches db"
  by (auto dest: apply_match_teams)

lemma apply_or_skip_matches: "matches (apply_or_skip now db m) = matches db"
  by (auto simp: apply_or_skip_def split: sum.splits dest: apply_match_matches)

lemma find_match_id_distinct:
  "distinct (map match_id ms) \<Longrightarrow> m \<in> set ms \<Longrightarrow>
     find (\<lambda>x. match_id x = match_id m) ms = Some m"
proof (induction ms)
  case Nil
  then show ?case by simp
next
  case (Cons x ms)
  show ?case
  proof (cases "x = m")
    case True
    then show ?thesis by simp
  next
    case False
    then have "m \<in> set ms" using Cons.prems(2) by simp
    then have "match_id x \<noteq> match_id m" using Cons.prems(1) by (metis distinct.simps(2) imageI list.simps(9) set_map)
    then show ?thesis using Cons \<open>m \<in> set ms\<close> by simp
  qed
qed

text \<open>With \<^verbatim>\<open>match_id\<close> a key, both updates on the id of a stored row are the update of
  that row.\<close>

lemma update_of_stored:
  assumes "distinct (map match_id (matches db))" and "m \<in> set (matches db)"
  shows "update_elo_ratings db now (match_id m) = apply_match db now m"
    and "fixer_update_elo_ratings db now (match_id m) = apply_match db now m"
  using find_match_id_distinct [OF assms]
  by (simp_all add: update_elo_ratings_def fixer_update_elo_ratings_def match_by_id_def)

lemma process_ids_fold:
  assumes "upd = update_elo_ratings \<or> upd = fixer_update_elo_ratings"
    and "distinct (map match_id (matches db))"
    and "set ms \<subseteq> set (matches db)"
    and "distinct (map match_id ms)"
    and "match_id ` set ms \<inter> set processed = {}"
  shows "fst (process_ids upd now (map match_id ms) db processed) =
           foldl (apply_or_skip now) db ms"
  using assms(2-5)
proof (induction ms arbitrary: db processed)
  case Nil
  then show ?case by simp
next
  case (Cons m ms)
  have m: "m \<in> set (matches db)" using Cons.prems(2) by simp
  have u: "upd db now (match_id m) = apply_match db now m"
    using assms(1) update_of_stored [OF Cons.prems(1) m] by auto
  have np: "match_id m \<notin> set processed" using Cons.prems(4) by auto
  show ?case
  proof (cases "apply_match db now m")
    case (Inl e)
    have "fst (process_ids upd now (map match_id ms) db processed) =
            foldl (apply_or_skip now) db ms"
      using Cons.prems by (intro Cons.IH) auto
    moreover have "apply_or_skip now db m = db" using Inl by (simp add: apply_or_skip_def)
    ultimately show ?thesis using Inl u np by simp
  next
    case (Inr db1)
    have ms1: "matches db1 = matches db" using Inr by (rule apply_match_matches)
    have "fst (process_ids upd now (map match_id ms) db1 (match_id m # processed)) =
            foldl (apply_or_skip now) db1 ms"
      using Cons.prems by (intro Cons.IH) (auto simp: ms1)
    moreover have "apply_or_skip now db m = db1" using Inr by (simp add: apply_or_skip_def)
    ultimately show ?thesis using Inr u np by simp
  qed
qed

lemma process_ids_distinct:
  "distinct processed \<Longrightarrow> distinct (snd (process_ids upd now ids db processed))"
  by (induction ids arbitrary: db processed) (auto split: sum.splits)

subsection \<open>The order of the pass\<close>

lemma mset_order_by_date_asc: "mset (order_by_date_asc db ms) = mset ms"
  by (simp add: order_by_date_asc_def index_order_def)

lemma set_order_by_date_asc: "set (order_by_date_asc db ms) = set ms"
  by (simp add: order_by_date_asc_def index_order_def)

lemma sorted_index_order: "sorted (map date (index_order ms))"
proof -
  let ?key = "\<lambda>m. (date m, home_team_id m, away_team_id m, match_id m)"
  have "sorted (map ?key (index_order ms))"
    unfolding index_order_def by (rule sorted_sort_key)
  then have "sorted_wrt (\<lambda>x y. ?key x \<le> ?key y) (index_order ms)"
    by (simp add: sorted_map)
  then have "sorted_wrt (\<lambda>x y. date x \<le> date y) (index_order ms)"
    by (rule sorted_wrt_mono_rel [rotated]) auto
  then show ?thesis by (simp add: sorted_map)
qed

lemma sorted_order_by_date_asc: "sorted (map date (order_by_date_asc db ms))"
  by (simp add: order_by_date_asc_def sorted_index_order sorted_sort_key)

lemma order_by_date_asc_reset:
  "order_by_date_asc (reset_elo_ratings db) ms = order_by_date_asc db ms"
  by (simp add: order_by_date_asc_def reset_elo_ratings_def)

lemma distinct_match_id_sort:
  "distinct (map match_id (order_by_date_asc db ms)) = distinct (map match_id ms)"
  by (rule mset_eq_imp_distinct_iff) (metis mset_map mset_order_by_date_asc)

lemma process_chronological_fold:
  assumes "upd = update_elo_ratings \<or> upd = fixer_update_elo_ratings"
    and "distinct (map match_id (matches db))"
  shows "fst (process_ids upd now (chronological db) db []) =
           foldl (apply_or_skip now) db (order_by_date_asc db (matches db))"
  unfolding chronological_def
  using assms by (intro process_ids_fold) (simp_all add: distinct_match_id_sort set_order_by_date_asc)

lemma foldl_apply_or_skip_matches:
  "matches (foldl (apply_or_skip now) db ms) = matches db"
  by (induction ms arbitrary: db) (simp_all add: apply_or_skip_matches)

lemma reset_elo_ratings_simps:
  "matches (reset_elo_ratings db) = matches db"
  "last_fetched_date (reset_elo_ratings db) = last_fetched_date db"
  "\<forall>t \<in> set (teams (reset_elo_ratings db)). current_elo_rating t = 1500"
  by (simp_all add: reset_elo_ratings_def)

lemma process_historical_matches_teams:
  assumes "distinct (map match_id (matches db))"
  shows "teams (process_historical_matches db now) =
           teams (foldl (apply_or_skip now) (reset_elo_ratings db) (order_by_date_asc db (matches db)))"
proof (cases "matches db = []")
  case True
  then show ?thesis
    by (simp add: process_historical_matches_def reset_elo_ratings_simps
          order_by_date_asc_def index_order_def)
next
  case False
  let ?db0 = "reset_elo_ratings db"
  have f: "fst (process_ids update_elo_ratings now (chronological ?db0) ?db0 []) =
             foldl (apply_or_skip now) ?db0 (order_by_date_asc db (matches db))"
    using process_chronological_fold [of update_elo_ratings ?db0 now] assms
    by (simp add: reset_elo_ratings_simps order_by_date_asc_reset)
  show ?thesis
    using False f
    by (auto simp: process_historical_matches_def reset_elo_ratings_simps Let_def
          set_last_fetched_date_def split: prod.splits option.splits)
qed


text \<open>
  Claim C5, as stated, fails: an error while one event is processed is caught inside
  the loop.  Here the match refers to a team that is not in the table, so its update
  raises \<^verbatim>\<open>TypeError\<close>; \<^verbatim>\<open>fix_elo_ratings\<close> raises nothing, the event is not folded,
  and the ratings are the reset ones, not those from before the rebuild.
\<close>

theorem fix_elo_ratings_swallows_match_error:
  "fixer_update_elo_ratings
     (reset_elo_ratings
        \<lparr>teams = [\<lparr>team_id = 1, api_team_id = Some 57, name = ''Arsenal'',
                    current_elo_rating = 1540, updated_at = 0\<rparr>],
         matches = [\<lparr>match_id = 1, api_match_id = None, home_team_id = 1, away_team_id = 3,
                      date = 19980, home_goals = 2, away_goals = 0, result = - 1\<rparr>],
         last_fetched_date = None, lookup_index = True\<rparr>) 1726300000 1 = Inl TypeError \<and>
   fix_elo_ratings
     \<lparr>db_file = Some
        \<lparr>teams = [\<lparr>team_id = 1, api_team_id = Some 57, name = ''Arsenal'',
                    current_elo_rating = 1540, updated_at = 0\<rparr>],
         matches = [\<lparr>match_id = 1, api_match_id = None, home_team_id = 1, away_team_id = 3,
                      date = 19980, home_goals = 2, away_goals = 0, result = - 1\<rparr>],
         last_fetched_date = None, lookup_index = True\<rparr>,
      backup_file = None\<rparr> 1726300000 None =
   (None,
    \<lparr>db_file = Some
        \<lparr>teams = [\<lparr>team_id = 1, api_team_id = Some 57, name = ''Arsenal'',
                    current_elo_rating = 1500, updated_at = 0\<rparr>],
         matches = [\<lparr>match_id = 1, api_match_id = None, home_team_id = 1, away_team_id = 3,
                      date = 19980, home_goals = 2, away_goals = 0, result = - 1\<rparr>],
         last_fetched_date = None, lookup_index = True\<rparr>,
     backup_file = Some
        \<lparr>teams = [\<lparr>team_id = 1, api_team_id = Some 57, name = ''Arsenal'',
                    current_elo_rating = 1540, updated_at = 0\<rparr>],
         matches = [\<lparr>match_id = 1, api_match_id = None, home_team_id = 1, away_team_id = 3,
                      date = 19980, home_goals = 2, away_goals = 0, result = - 1\<rparr>],
         last_fetched_date = None, lookup_index = True\<rparr>\<rparr>)"
  by (simp add: fix_elo_ratings_def reset_elo_ratings_def process_matches_chronologically_def
        chronological_def order_by_date_asc_def index_order_def fixer_update_elo_ratings_def
        match_by_id_def apply_match_def team_by_id_def)

text \<open>
  Claim C5, amended.  On an existing database file whose \<^verbatim>\<open>match_id\<close> is a key,
  \<^verbatim>\<open>fix_elo_ratings\<close> copies the file to the backup, sets every rating to 1500, and
  folds the stored events through the rating update in ascending order of date
  (a permutation of the stored events, those of one date in the order in which
  SQLite returns them), passing over an event whose update raises; no id is
  processed twice in a pass, whatever the list of ids.
  \<^verbatim>\<open>process_historical_matches\<close> leaves the same ratings.  When a step other than the
  update of one event raises after the backup was taken, the database file is the
  one from before the rebuild again and the error is raised.
\<close>

theorem fix_elo_ratings_rebuild:
  assumes "db_file fs = Some db" and "distinct (map match_id (matches db))"
  shows "(\<forall>t \<in> set (teams (reset_elo_ratings db)). current_elo_rating t = 1500) \<and>
         sorted (map date (order_by_date_asc db (matches db))) \<and>
         mset (order_by_date_asc db (matches db)) = mset (matches db) \<and>
         distinct (snd (process_ids fixer_update_elo_ratings now ids db' [])) \<and>
         fix_elo_ratings fs now None =
           (None, fs\<lparr>db_file := Some (foldl (apply_or_skip now) (reset_elo_ratings db)
                                          (order_by_date_asc db (matches db))),
                     backup_file := Some db\<rparr>) \<and>
         teams (process_historical_matches db now) =
           teams (foldl (apply_or_skip now) (reset_elo_ratings db)
                    (order_by_date_asc db (matches db))) \<and>
         (fault \<noteq> None \<longrightarrow>
            fix_elo_ratings fs now fault =
              (Some OSError, fs\<lparr>db_file := Some db, backup_file := Some db\<rparr>))"
proof -
  let ?db0 = "reset_elo_ratings db"
  have p: "process_matches_chronologically ?db0 now =
             foldl (apply_or_skip now) ?db0 (order_by_date_asc db (matches db))"
    using process_chronological_fold [of fixer_update_elo_ratings ?db0 now] assms(2)
    by (simp add: process_matches_chronologically_def reset_elo_ratings_simps
          order_by_date_asc_reset)
  have ok: "fix_elo_ratings fs now None =
           (None, fs\<lparr>db_file := Some (foldl (apply_or_skip now) ?db0
                                          (order_by_date_asc db (matches db))),
                     backup_file := Some db\<rparr>)"
    by (simp add: fix_elo_ratings_def assms(1) p Let_def)
  have bad: "fix_elo_ratings fs now fault =
              (Some OSError, fs\<lparr>db_file := Some db, backup_file := Some db\<rparr>)"
    if "fault \<noteq> None"
  proof -
    from that obtain f where "fault = Some f" by auto
    then show ?thesis
      by (cases f) (simp_all add: fix_elo_ratings_def assms(1) Let_def restore_def)
  qed
  show ?thesis
    using ok bad process_historical_matches_teams [OF assms(2), of now]
      process_ids_distinct [of "[]" fixer_update_elo_ratings now ids db']
    by (simp add: reset_elo_ratings_simps sorted_order_by_date_asc mset_order_by_date_asc)
qed

theorem fix_elo_ratings_rebuild_witness:
  "chronological
     \<lparr>teams = [\<lparr>team_id = 1, api_team_id = Some 57, name = ''Arsenal'',
                    current_elo_rating = 1540, updated_at = 0\<rparr>,
                  \<lparr>team_id = 2, api_team_id = Some 61, name = ''Chelsea'',
                    current_elo_rating = 1480, updated_at = 0\<rparr>,
                  \<lparr>team_id = 3, api_team_id = Some 64, name = ''Liverpool'',
                    current_elo_rating = 1510, updated_at = 0\<rparr>],
         matches = [\<lparr>match_id = 1, api_match_id = None, home_team_id = 2, away_team_id = 1,
                      date = 19980, home_goals = 2, away_goals = 0, result = - 1\<rparr>,
                    \<lparr>match_id = 2, api_match_id = None, home_team_id = 1, away_team_id = 3,
                      date = 19980, home_goals = 1, away_goals = 1, result = 0\<rparr>],
         last_fetched_date = None, lookup_index = True\<rparr> = [2, 1] \<and>
   fix_elo_ratings
     \<lparr>db_file = Some
        \<lparr>teams = [\<lparr>team_id = 1, api_team_id = Some 57, name = ''Arsenal'',
                    current_elo_rating = 1540, updated_at = 0\<rparr>,
                  \<lparr>team_id = 2, api_team_id = Some 61, name = ''Chelsea'',
                    current_elo_rating = 1480, updated_at = 0\<rparr>,
                  \<lparr>team_id = 3, api_team_id = Some 64, name = ''Liverpool'',
                    current_elo_rating = 1510, updated_at = 0\<rparr>],
         matches = [\<lparr>match_id = 1, api_match_id = None, home_team_id = 2, away_team_id = 1,
                      date = 19980, home_goals = 2, away_goals = 0, result = - 1\<rparr>,
                    \<lparr>match_id = 2, api_match_id = None, home_team_id = 1, away_team_id = 3,
                      date = 19980, home_goals = 1, away_goals = 1, result = 0\<rparr>],
         last_fetched_date = None, lookup_index = True\<rparr>,
      backup_file = None\<rparr> 1726300000 None =
   (None,
    \<lparr>db_file = Some
        (foldl (apply_or_skip 1726300000)
           (reset_elo_ratings
              \<lparr>teams = [\<lparr>team_id = 1, api_team_id = Some 57, name = ''Arsenal'',
                    current_elo_rating = 1540, updated_at = 0\<rparr>,
                  \<lparr>team_id = 2, api_team_id = Some 61, name = ''Chelsea'',
                    current_elo_rating = 1480, updated_at = 0\<rparr>,
                  \<lparr>team_id = 3, api_team_id = Some 64, name = ''Liverpool'',
                    current_elo_rating = 1510, updated_at = 0\<rparr>],
         matches = [\<lparr>match_id = 1, api_match_id = None, home_team_id = 2, away_team_id = 1,
                      date = 19980, home_goals = 2, away_goals = 0, result = - 1\<rparr>,
                    \<lparr>match_id = 2, api_match_id = None, home_team_id = 1, away_team_id = 3,
                      date = 19980, home_goals = 1, away_goals = 1, result = 0\<rparr>],
         last_fetched_date = None, lookup_index = True\<rparr>)
           [\<lparr>match_id = 2, api_match_id = None, home_team_id = 1, away_team_id = 3,
                      date = 19980, home_goals = 1, away_goals = 1, result = 0\<rparr>,
            \<lparr>match_id = 1, api_match_id = None, home_team_id = 2, away_team_id = 1,
                      date = 19980, home_goals = 2, away_goals = 0, result = - 1\<rparr>]),
     backup_file = Some
        \<lparr>teams = [\<lparr>team_id = 1, api_team_id = Some 57, name = ''Arsenal'',
                    current_elo_rating = 1540, updated_at = 0\<rparr>,
                  \<lparr>team_id = 2, api_team_id = Some 61, name = ''Chelsea'',
                    current_elo_rating = 1480, updated_at = 0\<rparr>,
                  \<lparr>team_id = 3, api_team_id = Some 64, name = ''Liverpool'',
                    current_elo_rating = 1510, updated_at = 0\<rparr>],
         matches = [\<lparr>match_id = 1, api_match_id = None, home_team_id = 2, away_team_id = 1,
                      date = 19980, home_goals = 2, away_goals = 0, result = - 1\<rparr>,
                    \<lparr>match_id = 2, api_match_id = None, home_team_id = 1, away_team_id = 3,
                      date = 19980, home_goals = 1, away_goals = 1, result = 0\<rparr>],
         last_fetched_date = None, lookup_index = True\<rparr>\<rparr>) \<and>
   fix_elo_ratings
     \<lparr>db_file = Some
        \<lparr>teams = [\<lparr>team_id = 1, api_team_id = Some 57, name = ''Arsenal'',
                    current_elo_rating = 1540, updated_at = 0\<rparr>,
                  \<lparr>team_id = 2, api_team_id = Some 61, name = ''Chelsea'',
                    current_elo_rating = 1480, updated_at = 0\<rparr>,
                  \<lparr>team_id = 3, api_team_id = Some 64, name = ''Liverpool'',
                    current_elo_rating = 1510, updated_at = 0\<rparr>],
         matches = [\<lparr>match_id = 1, api_match_id = None, home_team_id = 2, away_team_id = 1,
                      date = 19980, home_goals = 2, away_goals = 0, result = - 1\<rparr>,
                    \<lparr>match_id = 2, api_match_id = None, home_team_id = 1, away_team_id = 3,
                      date = 19980, home_goals = 1, away_goals = 1, result = 0\<rparr>],
         last_fetched_date = None, lookup_index = True\<rparr>,
      backup_file = None\<rparr> 1726300000 (Some AtVerify) =
   (Some OSError,
    \<lparr>db_file = Some
        \<lparr>teams = [\<lparr>team_id = 1, api_team_id = Some 57, name = ''Arsenal'',
                    current_elo_rating = 1540, updated_at = 0\<rparr>,
                  \<lparr>team_id = 2, api_team_id = Some 61, name = ''Chelsea'',
                    current_elo_rating = 1480, updated_at = 0\<rparr>,
                  \<lparr>team_id = 3, api_team_id = Some 64, name = ''Liverpool'',
                    current_elo_rating = 1510, updated_at = 0\<rparr>],
         matches = [\<lparr>match_id = 1, api_match_id = None, home_team_id = 2, away_team_id = 1,
                      date = 19980, home_goals = 2, away_goals = 0, result = - 1\<rparr>,
                    \<lparr>match_id = 2, api_match_id = None, home_team_id = 1, away_team_id = 3,
                      date = 19980, home_goals = 1, away_goals = 1, result = 0\<rparr>],
         last_fetched_date = None, lookup_index = True\<rparr>,
     backup_file = Some
        \<lparr>teams = [\<lparr>team_id = 1, api_team_id = Some 57, name = ''Arsenal'',
                    current_elo_rating = 1540, updated_at = 0\<rparr>,
                  \<lparr>team_id = 2, api_team_id = Some 61, name = ''Chelsea'',
                    current_elo_rating = 1480, updated_at = 0\<rparr>,
                  \<lparr>team_id = 3, api_team_id = Some 64, name = ''Liverpool'',
                    current_elo_rating = 1510, updated_at = 0\<rparr>],
         matches = [\<lparr>match_id = 1, api_match_id = None, home_team_id = 2, away_team_id = 1,
                      date = 19980, home_goals = 2, away_goals = 0, result = - 1\<rparr>,
                    \<lparr>match_id = 2, api_match_id = None, home_team_id = 1, away_team_id = 3,
                      date = 19980, home_goals = 1, away_goals = 1, result = 0\<rparr>],
         last_fetched_date = None, lookup_index = True\<rparr>\<rparr>)"
  using fix_elo_ratings_rebuild [where fs =
     "\<lparr>db_file = Some
        \<lparr>teams = [\<lparr>team_id = 1, api_team_id = Some 57, name = ''Arsenal'',
                    current_elo_rating = 1540, updated_at = 0\<rparr>,
                  \<lparr>team_id = 2, api_team_id = Some 61, name = ''Chelsea'',
                    current_elo_rating = 1480, updated_at = 0\<rparr>,
                  \<lparr>team_id = 3, api_team_id = Some 64, name = ''Liverpool'',
                    current_elo_rating = 1510, updated_at = 0\<rparr>],
         matches = [\<lparr>match_id = 1, api_match_id = None, home_team_id = 2, away_team_id = 1,
                      date = 19980, home_goals = 2, away_goals = 0, result = - 1\<rparr>,
                    \<lparr>match_id = 2, api_match_id = None, home_team_id = 1, away_team_id = 3,
                      date = 19980, home_goals = 1, away_goals = 1, result = 0\<rparr>],
         last_fetched_date = None, lookup_index = True\<rparr>,
      backup_file = None\<rparr>" and db =
     "\<lparr>teams = [\<lparr>team_id = 1, api_team_id = Some 57, name = ''Arsenal'',
                    current_elo_rating = 1540, updated_at = 0\<rparr>,
                  \<lparr>team_id = 2, api_team_id = Some 61, name = ''Chelsea'',
                    current_elo_rating = 1480, updated_at = 0\<rparr>,
                  \<lparr>team_id = 3, api_team_id = Some 64, name = ''Liverpool'',
                    current_elo_rating = 1510, updated_at = 0\<rparr>],
         matches = [\<lparr>match_id = 1, api_match_id = None, home_team_id = 2, away_team_id = 1,
                      date = 19980, home_goals = 2, away_goals = 0, result = - 1\<rparr>,
                    \<lparr>match_id = 2, api_match_id = None, home_team_id = 1, away_team_id = 3,
                      date = 19980, home_goals = 1, away_goals = 1, result = 0\<rparr>],
         last_fetched_date = None, lookup_index = True\<rparr>" and fault = "Some AtVerify" and now = 1726300000
     and ids = "[]"]
  by (simp add: chronological_def order_by_date_asc_def index_order_def)
section \<open>Synchronisation\<close>

lemma update_matches_eq:
  "update_matches model_error db t now fetch =
     (let requests =
            (if (case get_last_match_date db of
                   Some l \<Rightarrow> date_of l \<ge> date_of (get_season_end_date t) | None \<Rightarrow> False) \<or>
                from_date (get_last_match_date db) > to_date (get_season_end_date t)
             then []
             else map (\<lambda>(chunk_start, chunk_end). (date_of chunk_start, date_of chunk_end))
                    (get_date_chunks (from_date (get_last_match_date db))
                       (to_date (get_season_end_date t)) chunk_size))
      in (if model_error \<noteq> None \<and> all_matches fetch requests \<noteq> [] then db
          else set_last_fetched_date db (date_of now), requests))"
  by (cases model_error)
     (simp_all add: update_matches_def Let_def process_new_matches_def
        process_matches_loop_unchanged all_matches_def)

lemma get_date_chunks_empty:
  "end_date \<le> current_start \<Longrightarrow> get_date_chunks current_start end_date n = []"
  by (simp add: get_date_chunks.simps)

lemma get_season_end_date_clock: "get_season_end_date t = t"
  by (simp add: get_season_end_date_def make_request_no_endpoint_def)

lemma get_date_chunks_first:
  "get_date_chunks (midnight 19936) (midnight 19951) 5 =
      [(midnight 19936, midnight 19941), (midnight 19942, midnight 19947),
       (midnight 19948, midnight 19951)]"
  by (simp add: get_date_chunks.simps midnight_def timedelta_days_def)

lemma date_of_midnight: "date_of (midnight k) = k" "date_of (midnight k + 60) = k"
  by (simp_all add: date_of_def midnight_def)

lemma window_examples:
  "from_date None = midnight 19936"
  "to_date (get_season_end_date (midnight 19950)) = midnight 19951"
  "to_date (get_season_end_date (midnight 19900)) = midnight 19901"
  "midnight 19901 \<le> midnight 19936" "\<not> midnight 19951 < midnight 19936"
  "\<not> midnight 19951 \<le> midnight 19936"
  by (simp_all add: from_date_def season_start_def to_date_def get_season_end_date_clock
        midnight_def timedelta_days_def)

lemma get_last_match_date_empty:
  "get_last_match_date \<lparr>teams = [], matches = [], last_fetched_date = None, lookup_index = True\<rparr> = None"
  by (simp add: get_last_match_date_def max_date_def)

text \<open>
  Claim C7, as stated, fails.  \<^verbatim>\<open>process_new_matches\<close> builds \<^verbatim>\<open>ModelService()\<close> before
  its loop; when that raises (here \<^verbatim>\<open>FileNotFoundError\<close>: no model file) and a chunk
  has brought a record, the exception is caught by the outer \<^verbatim>\<open>except\<close> of
  \<^verbatim>\<open>update_matches\<close>, and the pass ends with all three chunks requested and
  \<^verbatim>\<open>last_fetched_date\<close> not written.
\<close>

theorem update_matches_skips_watermark:
  "update_matches (Some FileNotFoundError)
     \<lparr>teams = [], matches = [], last_fetched_date = None, lookup_index = True\<rparr>
     (midnight 19950) (midnight 19950 + 60)
     (\<lambda>r. if r = (19936, 19941)
           then Matches [Record \<lparr>rm_match_id = 1001, rm_date = Some 19940, rm_home_team_id = 57,
                    rm_home_team_name = ''Arsenal'', rm_away_team_id = 61,
                    rm_away_team_name = ''Chelsea'', rm_status = ''FINISHED'',
                    rm_home_goals = Some 2, rm_away_goals = Some 0\<rparr>]
           else NoMatches) =
     (\<lparr>teams = [], matches = [], last_fetched_date = None, lookup_index = True\<rparr>,
      [(19936, 19941), (19942, 19947), (19948, 19951)]) \<and>
   last_fetched_date (fst (update_matches (Some FileNotFoundError)
     \<lparr>teams = [], matches = [], last_fetched_date = None, lookup_index = True\<rparr>
     (midnight 19950) (midnight 19950 + 60)
     (\<lambda>r. if r = (19936, 19941)
           then Matches [Record \<lparr>rm_match_id = 1001, rm_date = Some 19940, rm_home_team_id = 57,
                    rm_home_team_name = ''Arsenal'', rm_away_team_id = 61,
                    rm_away_team_name = ''Chelsea'', rm_status = ''FINISHED'',
                    rm_home_goals = Some 2, rm_away_goals = Some 0\<rparr>]
           else NoMatches))) \<noteq> Some (date_of (midnight 19950 + 60))"
  by (simp add: update_matches_eq window_examples get_last_match_date_empty
        get_date_chunks_first date_of_midnight chunk_size_def all_matches_def
        chunk_matches_def)

text \<open>
  Claim C7, amended.  A pass of \<^verbatim>\<open>update_matches\<close> ends with \<^verbatim>\<open>last_fetched_date\<close> set
  to the date of \<open>now\<close> when the prediction model loads or no chunk has brought a
  record; when the model does not load and a chunk has brought a record, the pass
  leaves the database as it was.  When the window is empty or inverted (its upper
  bound is not above its lower bound) no request is made, the watermark is set and
  \<^verbatim>\<open>matches\<close> is as before.  The requests made depend neither on what the requests
  return nor on the model: a chunk that fails does not stop the chunks after it, and
  when the window is not inverted every chunk of it is requested.
\<close>

theorem update_matches_watermark:
  "(model_error = None \<or> all_matches fetch (snd (update_matches model_error db t now fetch)) = [] \<longrightarrow>
      fst (update_matches model_error db t now fetch) = set_last_fetched_date db (date_of now) \<and>
      last_fetched_date (fst (update_matches model_error db t now fetch)) = Some (date_of now)) \<and>
   (model_error \<noteq> None \<and>
    all_matches fetch (snd (update_matches model_error db t now fetch)) \<noteq> [] \<longrightarrow>
      fst (update_matches model_error db t now fetch) = db) \<and>
   (to_date (get_season_end_date t) \<le> from_date (get_last_match_date db) \<longrightarrow>
      update_matches model_error db t now fetch = (set_last_fetched_date db (date_of now), []) \<and>
      matches (fst (update_matches model_error db t now fetch)) = matches db) \<and>
   snd (update_matches model_error db t now fetch) =
     snd (update_matches model_error' db t now fetch') \<and>
   (\<not> (case get_last_match_date db of
          Some l \<Rightarrow> date_of l \<ge> date_of (get_season_end_date t) | None \<Rightarrow> False) \<and>
    from_date (get_last_match_date db) \<le> to_date (get_season_end_date t) \<longrightarrow>
      snd (update_matches model_error db t now fetch) =
        map (\<lambda>(chunk_start, chunk_end). (date_of chunk_start, date_of chunk_end))
          (get_date_chunks (from_date (get_last_match_date db))
             (to_date (get_season_end_date t)) chunk_size))"
  by (auto simp: update_matches_eq Let_def set_last_fetched_date_def get_date_chunks_empty
        all_matches_def)

theorem update_matches_watermark_witness:
  "update_matches None
     \<lparr>teams = [], matches = [], last_fetched_date = None, lookup_index = True\<rparr>
     (midnight 19950) (midnight 19950 + 60)
     (\<lambda>r. if r = (19936, 19941) then ErrorDict else if r = (19942, 19947) then Raised
           else (\<lambda>r. if r = (19936, 19941)
           then Matches [Record \<lparr>rm_match_id = 1001, rm_date = Some 19940, rm_home_team_id = 57,
                    rm_home_team_name = ''Arsenal'', rm_away_team_id = 61,
                    rm_away_team_name = ''Chelsea'', rm_status = ''FINISHED'',
                    rm_home_goals = Some 2, rm_away_goals = Some 0\<rparr>]
           else NoMatches) r) =
     (\<lparr>teams = [], matches = [], last_fetched_date = Some 19950, lookup_index = True\<rparr>,
      [(19936, 19941), (19942, 19947), (19948, 19951)]) \<and>
   update_matches (Some FileNotFoundError)
     \<lparr>teams = [], matches = [], last_fetched_date = None, lookup_index = True\<rparr>
     (midnight 19900) (midnight 19900 + 60) (\<lambda>r. Raised) =
     (\<lparr>teams = [], matches = [], last_fetched_date = Some 19900, lookup_index = True\<rparr>, [])"
proof -
  let ?db = "\<lparr>teams = [], matches = [], last_fetched_date = None, lookup_index = True\<rparr>"
  let ?f = "\<lambda>r::date \<times> date. if r = (19936, 19941) then ErrorDict
              else if r = (19942, 19947) then Raised
              else (\<lambda>r. if r = (19936, 19941)
           then Matches [Record \<lparr>rm_match_id = 1001, rm_date = Some 19940, rm_home_team_id = 57,
                    rm_home_team_name = ''Arsenal'', rm_away_team_id = 61,
                    rm_away_team_name = ''Chelsea'', rm_status = ''FINISHED'',
                    rm_home_goals = Some 2, rm_away_goals = Some 0\<rparr>]
           else NoMatches) r"
  have s: "snd (update_matches None ?db (midnight 19950) (midnight 19950 + 60) ?f) =
             [(19936, 19941), (19942, 19947), (19948, 19951)]"
    by (simp add: update_matches_eq window_examples get_last_match_date_empty
          get_date_chunks_first date_of_midnight chunk_size_def)
  from update_matches_watermark [where model_error = None and db = ?db
         and t = "midnight 19950" and now = "midnight 19950 + 60" and fetch = ?f]
  have "fst (update_matches None ?db (midnight 19950) (midnight 19950 + 60) ?f) =
          set_last_fetched_date ?db (date_of (midnight 19950 + 60))"
    by simp
  with s have 1: "update_matches None ?db (midnight 19950) (midnight 19950 + 60) ?f =
     (\<lparr>teams = [], matches = [], last_fetched_date = Some 19950, lookup_index = True\<rparr>,
      [(19936, 19941), (19942, 19947), (19948, 19951)])"
    by (simp add: prod_eq_iff set_last_fetched_date_def date_of_midnight)
  from update_matches_watermark [where model_error = "Some FileNotFoundError" and db = ?db
         and t = "midnight 19900" and now = "midnight 19900 + 60" and fetch = "\<lambda>r. Raised"]
  have 2: "update_matches (Some FileNotFoundError) ?db (midnight 19900) (midnight 19900 + 60)
             (\<lambda>r. Raised) =
     (\<lparr>teams = [], matches = [], last_fetched_date = Some 19900, lookup_index = True\<rparr>, [])"
    by (simp add: window_examples get_last_match_date_empty date_of_midnight
          set_last_fetched_date_def)
  from 1 2 show ?thesis by simp
qed

section \<open>Upstream requests\<close>

lemma rate_limit_wait_le: "rate_limit_wait attempt s \<le> 60"
  by (simp add: rate_limit_wait_def)

lemma backoff_le: "attempt \<le> max_retries \<Longrightarrow> backoff attempt \<le> 60"
proof -
  assume "attempt \<le> max_retries"
  then have "attempt \<le> 3" by (simp add: max_retries_def)
  then have "(2::real) ^ attempt \<le> 2 ^ 3" by (intro power_increasing) simp_all
  then show ?thesis by (simp add: backoff_def initial_retry_delay_def)
qed

lemma backoff_uncapped: "attempt \<le> max_retries \<Longrightarrow> rate_limit_wait attempt None = 5 * 2 ^ attempt"
  using backoff_le [of attempt]
  by (simp add: rate_limit_wait_def backoff_def initial_retry_delay_def)

text \<open>What one attempt does, by what it meets.\<close>

lemma attempt_body_simps:
  "attempt_body n Status200 = Return Data"
  "attempt_body n StatusOther = Return Error"
  "attempt_body n (Status429 (Wait w)) = Sleep (min w 60)"
  "n \<le> 3 \<Longrightarrow> attempt_body n (Status429 Unparsable) = Sleep (5 * 2 ^ n)"
  "n < 3 \<Longrightarrow> attempt_body n (Status429 OtherException) = Sleep (5 * 2 ^ n)"
  "n < 3 \<Longrightarrow> attempt_body n RequestError = Sleep (5 * 2 ^ n)"
  "attempt_body 3 (Status429 OtherException) = Return Error"
  "attempt_body 3 RequestError = Return Error"
  using backoff_uncapped [of n]
  by (simp_all add: attempt_body_def on_exception_def max_retries_def rate_limit_wait_def
        backoff_def initial_retry_delay_def)

lemma attempt_body_Sleep_le:
  assumes "attempt_body n r = Sleep w" and "n \<le> max_retries"
  shows "w \<le> 60"
  using assms backoff_le [of n]
  by (auto simp: attempt_body_def on_exception_def rate_limit_wait_def
        split: response.splits suggested_wait.splits if_splits)

lemma attempts_trace:
  "attempts responses xs = (res, made, sleeps) \<Longrightarrow>
     made = take (length made) xs \<and> length sleeps \<le> length made \<and>
     (\<forall>i<length sleeps. attempt_body (xs ! i) (responses (xs ! i)) = Sleep (sleeps ! i))"
proof (induction xs arbitrary: res made sleeps)
  case Nil
  then show ?case by simp
next
  case (Cons n xs)
  show ?case
  proof (cases "attempt_body n (responses n)")
    case (Return r)
    then show ?thesis using Cons.prems by auto
  next
    case (Sleep w)
    obtain res' made' sleeps' where a: "attempts responses xs = (res', made', sleeps')"
      by (metis prod_cases3)
    then have e: "res = res'" "made = n # made'" "sleeps = w # sleeps'"
      using Cons.prems Sleep by simp_all
    from Cons.IH [OF a] show ?thesis
      using Sleep by (auto simp: e nth_Cons split: nat.splits)
  qed
qed

text \<open>While the attempts sleep, the loop goes on.\<close>

lemma attempts_sleeping:
  "\<forall>n \<in> set ys. attempt_body n (responses n) = Sleep (w n) \<Longrightarrow>
     attempts responses (ys @ zs) =
       (case attempts responses zs of
          (res, made, sleeps) \<Rightarrow> (res, ys @ made, map w ys @ sleeps))"
  by (induction ys) (auto split: prod.splits)

lemma retried_sleeps:
  assumes "(\<exists>s. r = Status429 s) \<or> r = RequestError" and "n < 3"
  shows "\<exists>x. attempt_body n r = Sleep x"
proof -
  from assms(1) consider w where "r = Status429 (Wait w)" | "r = Status429 Unparsable"
    | "r = Status429 OtherException" | "r = RequestError"
    by (metis suggested_wait.exhaust)
  then show ?thesis using assms(2) by cases (simp_all add: attempt_body_simps)
qed

text \<open>The call, when the attempts before attempt \<open>k\<close> all met a 429 or an exception.\<close>

lemma make_request_at:
  assumes "k < 4"
    and "\<forall>i<k. (\<exists>s. responses i = Status429 s) \<or> responses i = RequestError"
  shows "\<exists>ws. length ws = k \<and>
           make_request responses =
             (case attempt_body k (responses k) of
                Return r \<Rightarrow> (r, [0 ..< Suc k], ws)
              | Sleep x \<Rightarrow>
                 (case attempts responses [Suc k ..< 4] of
                    (res, made, sleeps) \<Rightarrow> (res, [0 ..< Suc k] @ made, ws @ x # sleeps)))"
proof -
  let ?w = "\<lambda>n. case attempt_body n (responses n) of Sleep x \<Rightarrow> x | Return r \<Rightarrow> 0"
  have "attempt_body n (responses n) = Sleep (?w n)" if "n \<in> set [0 ..< k]" for n
  proof -
    from that assms have "n < 3" "(\<exists>s. responses n = Status429 s) \<or> responses n = RequestError"
      by auto
    from retried_sleeps [OF this(2,1)] show ?thesis by auto
  qed
  then have "attempts responses ([0 ..< k] @ [k ..< 4]) =
       (case attempts responses [k ..< 4] of
          (res, made, sleeps) \<Rightarrow> (res, [0 ..< k] @ made, map ?w [0 ..< k] @ sleeps))"
    by (intro attempts_sleeping) blast
  moreover have "[0 ..< k] @ [k ..< 4] = [0 ..< 4]"
    using assms(1) upt_add_eq_append [of 0 k "4 - k"] by simp
  moreover have "[k ..< 4] = k # [Suc k ..< 4]"
    using assms(1) by (simp add: upt_conv_Cons)
  ultimately have "make_request responses =
             (case attempt_body k (responses k) of
                Return r \<Rightarrow> (r, [0 ..< Suc k], map ?w [0 ..< k])
              | Sleep x \<Rightarrow>
                 (case attempts responses [Suc k ..< 4] of
                    (res, made, sleeps) \<Rightarrow>
                      (res, [0 ..< Suc k] @ made, map ?w [0 ..< k] @ x # sleeps)))"
    by (simp add: make_request_def max_retries_def split: step.splits prod.splits)
  then show ?thesis by (intro exI [of _ "map ?w [0 ..< k]"]) simp
qed

lemma make_request_Return:
  assumes "k < 4"
    and "\<forall>i<k. (\<exists>s. responses i = Status429 s) \<or> responses i = RequestError"
    and "attempt_body k (responses k) = Return r"
    and "make_request responses = (res, made, sleeps)"
  shows "res = r \<and> length made = k + 1 \<and> length sleeps = k"
  using make_request_at [OF assms(1,2)] assms(3,4) by auto

lemma make_request_Sleep:
  assumes "k < 4"
    and "\<forall>i<k. (\<exists>s. responses i = Status429 s) \<or> responses i = RequestError"
    and "attempt_body k (responses k) = Sleep x"
    and "make_request responses = (res, made, sleeps)"
  shows "k < length sleeps \<and> sleeps ! k = x \<and> (k = 3 \<longrightarrow> res = Error \<and> length made = 4)"
proof -
  from make_request_at [OF assms(1,2)] assms(3) obtain ws where
    ws: "length ws = k" and
    m: "make_request responses =
          (case attempts responses [Suc k ..< 4] of
             (res, made, sleeps) \<Rightarrow> (res, [0 ..< Suc k] @ made, ws @ x # sleeps))"
    by auto
  obtain res' made' sleeps' where a: "attempts responses [Suc k ..< 4] = (res', made', sleeps')"
    by (metis prod_cases3)
  have e: "res = res'" "made = [0 ..< Suc k] @ made'" "sleeps = ws @ x # sleeps'"
    using m a assms(4) by simp_all
  have "res = Error \<and> length made = 4" if "k = 3"
    using a e that by simp
  then show ?thesis using e ws by (simp add: nth_append)
qed

lemma make_request_made:
  assumes "k < 4"
    and "\<forall>i<k. (\<exists>s. responses i = Status429 s) \<or> responses i = RequestError"
    and "make_request responses = (res, made, sleeps)"
  shows "k < length made"
proof (cases "attempt_body k (responses k)")
  case (Return r)
  from make_request_Return [OF assms(1,2) this assms(3)] show ?thesis by simp
next
  case (Sleep x)
  from make_request_at [OF assms(1,2)] Sleep obtain ws where
    m: "make_request responses =
          (case attempts responses [Suc k ..< 4] of
             (res, made, sleeps) \<Rightarrow> (res, [0 ..< Suc k] @ made, ws @ x # sleeps))"
    by auto
  obtain res' made' sleeps' where "attempts responses [Suc k ..< 4] = (res', made', sleeps')"
    by (metis prod_cases3)
  then have "made = [0 ..< Suc k] @ made'" using m assms(3) by simp
  then show ?thesis by simp
qed

text \<open>
  Claim C8.  \<^verbatim>\<open>_make_request\<close> returns a value on every input, after at most 4
  attempts, made in order, and every wait is at most 60 seconds.  Attempt \<open>k\<close> (of
  0 to 3) is made when every attempt before it met a 429 or an exception.  When it
  meets a 200, the call returns the data; another status than 200 and 429, the error
  value; neither sleeps.  When it meets a 429, the call sleeps and goes on: for the
  wait the server suggests, capped at 60, when it parses; for \<open>5 * 2 ^ k\<close> (which the
  cap never cuts) when the parse raises one of the three exceptions caught there.
  When the parse raises another exception, or the request fails, the call sleeps
  for \<open>5 * 2 ^ k\<close> and goes on if \<open>k < 3\<close>, and returns the error value after the
  fourth attempt.  When all four attempts met a 429 or an exception, the call
  returns the error value.
\<close>

theorem make_request_retry:
  "case make_request responses of
     (res, made, sleeps) \<Rightarrow>
       length made \<le> 4 \<and> made = [0 ..< length made] \<and> length sleeps \<le> length made \<and>
       (\<forall>i < length sleeps. sleeps ! i \<le> 60) \<and>
       (\<forall>k < 4.
          (\<forall>i < k. (\<exists>s. responses i = Status429 s) \<or> responses i = RequestError) \<longrightarrow>
          k < length made \<and>
          (responses k = Status200 \<longrightarrow>
             res = Data \<and> length made = k + 1 \<and> length sleeps = k) \<and>
          (responses k = StatusOther \<longrightarrow>
             res = Error \<and> length made = k + 1 \<and> length sleeps = k) \<and>
          (\<forall>w. responses k = Status429 (Wait w) \<longrightarrow>
             k < length sleeps \<and> sleeps ! k = min w 60) \<and>
          (responses k = Status429 Unparsable \<longrightarrow>
             k < length sleeps \<and> sleeps ! k = 5 * 2 ^ k) \<and>
          (responses k = Status429 OtherException \<or> responses k = RequestError \<longrightarrow>
             (if k < 3 then k < length sleeps \<and> sleeps ! k = 5 * 2 ^ k
              else res = Error \<and> length made = 4 \<and> length sleeps = 3))) \<and>
       ((\<forall>i < 4. (\<exists>s. responses i = Status429 s) \<or> responses i = RequestError) \<longrightarrow>
          res = Error \<and> length made = 4)"
proof -
  obtain res made sleeps where m: "make_request responses = (res, made, sleeps)"
    by (metis prod_cases3)
  then have a: "attempts responses [0 ..< 4] = (res, made, sleeps)"
    by (simp add: make_request_def max_retries_def)
  note t = attempts_trace [OF a]
  have len: "length made \<le> 4"
  proof -
    have "length made = length (take (length made) [0 ..< 4])" using t by simp
    then show ?thesis by simp
  qed
  have made: "made = [0 ..< length made]"
  proof -
    have "made = take (length made) [0 ..< 4]" using t by simp
    also have "\<dots> = [0 ..< length made]" using len by (simp add: take_upt)
    finally show ?thesis .
  qed
  have sl: "sleeps ! i \<le> 60" if "i < length sleeps" for i
  proof -
    have i: "i < 4" using that t len by simp
    then have "[0 ..< 4] ! i = i" by (metis add_0 nth_upt)
    then have "attempt_body i (responses i) = Sleep (sleeps ! i)" using t that by auto
    from attempt_body_Sleep_le [OF this] show ?thesis using i by (simp add: max_retries_def)
  qed
  have at: "k < length made \<and>
          (responses k = Status200 \<longrightarrow>
             res = Data \<and> length made = k + 1 \<and> length sleeps = k) \<and>
          (responses k = StatusOther \<longrightarrow>
             res = Error \<and> length made = k + 1 \<and> length sleeps = k) \<and>
          (\<forall>w. responses k = Status429 (Wait w) \<longrightarrow>
             k < length sleeps \<and> sleeps ! k = min w 60) \<and>
          (responses k = Status429 Unparsable \<longrightarrow>
             k < length sleeps \<and> sleeps ! k = 5 * 2 ^ k) \<and>
          (responses k = Status429 OtherException \<or> responses k = RequestError \<longrightarrow>
             (if k < 3 then k < length sleeps \<and> sleeps ! k = 5 * 2 ^ k
              else res = Error \<and> length made = 4 \<and> length sleeps = 3))"
    if k: "k < 4"
      and r: "\<forall>i < k. (\<exists>s. responses i = Status429 s) \<or> responses i = RequestError" for k
  proof -
    note R = make_request_Return [OF k r _ m]
    note S = make_request_Sleep [OF k r _ m]
    have k3: "k \<le> 3" using k by simp
    have 1: "k < length made" by (rule make_request_made [OF k r m])
    have 2: "res = Data \<and> length made = k + 1 \<and> length sleeps = k"
      if "responses k = Status200"
      using R [of Data] that by (simp add: attempt_body_simps)
    have 3: "res = Error \<and> length made = k + 1 \<and> length sleeps = k"
      if "responses k = StatusOther"
      using R [of Error] that by (simp add: attempt_body_simps)
    have 4: "k < length sleeps \<and> sleeps ! k = min w 60"
      if "responses k = Status429 (Wait w)" for w
      using S [of "min w 60"] that by (simp add: attempt_body_simps)
    have 5: "k < length sleeps \<and> sleeps ! k = 5 * 2 ^ k"
      if "responses k = Status429 Unparsable"
      using S [of "5 * 2 ^ k"] that k3 by (simp add: attempt_body_simps)
    have 6: "k < length sleeps \<and> sleeps ! k = 5 * 2 ^ k"
      if "responses k = Status429 OtherException \<or> responses k = RequestError" "k < 3"
      using S [of "5 * 2 ^ k"] that by (auto simp: attempt_body_simps)
    have 7: "res = Error \<and> length made = 4 \<and> length sleeps = 3"
      if "responses k = Status429 OtherException \<or> responses k = RequestError" "\<not> k < 3"
    proof -
      have "k = 3" using that(2) k by simp
      then show ?thesis using R [of Error] that(1) by (auto simp: attempt_body_simps)
    qed
    from 1 2 3 4 5 6 7 show ?thesis by simp
  qed
  have err: "res = Error \<and> length made = 4"
    if all: "\<forall>i < 4. (\<exists>s. responses i = Status429 s) \<or> responses i = RequestError"
  proof -
    have r: "\<forall>i < 3. (\<exists>s. responses i = Status429 s) \<or> responses i = RequestError"
      using all by simp
    have k: "(3::nat) < 4" by simp
    from all have "(\<exists>s. responses 3 = Status429 s) \<or> responses 3 = RequestError" by simp
    then consider w where "responses 3 = Status429 (Wait w)" | "responses 3 = Status429 Unparsable"
      | "responses 3 = Status429 OtherException \<or> responses 3 = RequestError"
      by (metis suggested_wait.exhaust)
    then show ?thesis
    proof cases
      case 1
      then show ?thesis
        using make_request_Sleep [OF k r _ m, of "min w 60"] by (simp add: attempt_body_simps)
    next
      case 2
      then show ?thesis
        using make_request_Sleep [OF k r _ m, of "5 * 2 ^ 3"] by (simp add: attempt_body_simps)
    next
      case 3
      then show ?thesis
        using make_request_Return [OF k r _ m, of Error] by (auto simp: attempt_body_simps)
    qed
  qed
  show ?thesis
    unfolding m using len made t sl at err by simp
qed

lemmas request_defs =
  make_request_def max_retries_def attempt_body_def on_exception_def rate_limit_wait_def
  backoff_def initial_retry_delay_def

theorem make_request_retry_witness:
  "make_request (\<lambda>n. if n = 0 then Status429 (Wait 3) else Status200) = (Data, [0, 1], [3]) \<and>
   make_request (\<lambda>n. Status429 Unparsable) = (Error, [0, 1, 2, 3], [5, 10, 20, 40]) \<and>
   make_request (\<lambda>n. Status429 (Wait 90)) = (Error, [0, 1, 2, 3], [60, 60, 60, 60]) \<and>
   make_request (\<lambda>n. if n = 0 then RequestError else if n = 1 then Status429 OtherException
                      else StatusOther) = (Error, [0, 1, 2], [5, 10]) \<and>
   make_request (\<lambda>n. RequestError) = (Error, [0, 1, 2, 3], [5, 10, 20])"
  using make_request_retry [of "\<lambda>n. if n = 0 then Status429 (Wait 3) else Status200"]
  by (simp add: request_defs upt_rec)

end
